theory Spec2Isabelle
  imports Main "HOL-Library.AList" "HOL-Library.Char_ord" "HOL-Library.List_Lexorder"
begin

section \<open>Data model (types.go, errors.go, client.go)\<close>

text \<open>
  A JSON value as \<^verbatim>\<open>encoding/json\<close> reads it from a body. \<open>JInt i\<close> is a number
  literal written as an integer, \<open>JNum m e\<close> any other number literal (one with a
  fraction or an exponent), of value \<open>m * 10 ^ e\<close>. Object members are kept in the
  order of the text, duplicates included. A value of Go type \<^verbatim>\<open>any\<close> that the
  decoder produced is represented by the JSON value it was decoded from.
\<close>

datatype json =
    JNull
  | JBool bool
  | JInt int
  | JNum int int
  | JString string
  | JArray "json list"
  | JObject "(string \<times> json) list"

text \<open>
  A Go \<^verbatim>\<open>int\<close> is modelled by \<open>int\<close>. The client compares its ints, prints them
  in decimal and increments the page counter, and the increment stays below a total-page
  count that was decoded into a 64-bit \<^verbatim>\<open>int\<close>, so no operation of the client wraps
  around.
\<close>

text \<open>
  \<^verbatim>\<open>type Record map[string]any\<close>. \<open>None\<close> is the nil map; a non-nil map is an
  association list with distinct keys.
\<close>

type_synonym Record = "(string \<times> json) list option"

text \<open>\<^verbatim>\<open>type APIError struct { Status int; Message string; Data map[string]any }\<close>\<close>

record APIError =
  Status :: int
  Message :: string
  Data :: Record

text \<open>
  The two kinds of error the operations return: an error made with \<^verbatim>\<open>fmt.Errorf\<close>
  (identified by the stage named in its message) and an \<^verbatim>\<open>*APIError\<close>.
\<close>

datatype error =
    LocalError string
  | APIErr APIError

record apiErrorResp =
  apiErrorResp_Status :: int
  apiErrorResp_Message :: string
  apiErrorResp_Data :: Record

record authResp =
  authResp_Token :: string
  authResp_Record :: Record

record impersonateResp =
  impersonateResp_Token :: string
  impersonateResp_Record :: Record

record ImpersonateResult =
  Token :: string
  Record :: Record

record listResp =
  listResp_Page :: int
  listResp_PerPage :: int
  TotalItems :: int
  TotalPages :: int
  Items :: "Record list"

record QueryOptions =
  QueryOptions_Expand :: "string list"
  QueryOptions_Fields :: "string list"

record ListOptions =
  Page :: int
  PerPage :: int
  Sort :: string
  Filter :: string
  Expand :: "string list"
  Fields :: "string list"

text \<open>
  \<^verbatim>\<open>FileData.Reader\<close> is an \<^verbatim>\<open>io.Reader\<close>: reading it to the end either yields its
  bytes or fails. \<^verbatim>\<open>FileData.Size\<close> is never read by the client.
\<close>

datatype reader = Bytes string | ReadError

record FileData =
  Reader :: reader
  Filename :: string
  Size :: int

record FileUpload =
  Field :: string
  Files :: "FileData list"
  Append :: bool
  Delete :: "string list"

text \<open>
  A value of a form-data \<^verbatim>\<open>Record\<close>, by the cases of the type switch in
  \<^verbatim>\<open>doMultipartRequest\<close>: a string, a primitive (with its \<^verbatim>\<open>%v\<close> rendering), or
  any other value, which \<^verbatim>\<open>json.Marshal\<close> turns into JSON or rejects.
\<close>

datatype form_value =
    FormString string
  | FormPrimitive string
  | FormComplex "json option"

text \<open>
  \<^verbatim>\<open>FileUploadOptions\<close>; \<open>FormData\<close> is the \<^verbatim>\<open>Data\<close> map (\<open>None\<close> when nil), its
  entries in the order in which \<^verbatim>\<open>range\<close> visits them. The embedded
  \<^verbatim>\<open>QueryOptions\<close> are the two last fields.
\<close>

record FileUploadOptions =
  Uploads :: "FileUpload list"
  FormData :: "(string \<times> form_value) list option"
  FileUploadOptions_Expand :: "string list"
  FileUploadOptions_Fields :: "string list"

text \<open>
  \<^verbatim>\<open>Client\<close>: the mutex only orders concurrent accesses and is not part of the
  sequential state. \<^verbatim>\<open>HTTPClient\<close> is the transport below.
\<close>

record Client =
  BaseURL :: string
  userAgent :: string
  token :: string

section \<open>Token store and error classification\<close>

definition SetToken :: "Client \<Rightarrow> string \<Rightarrow> Client" where
  "SetToken c t = c\<lparr>token := t\<rparr>"

definition GetToken :: "Client \<Rightarrow> string" where
  "GetToken c = token c"

definition IsNotFound :: "APIError \<Rightarrow> bool" where
  "IsNotFound e \<longleftrightarrow> Status e = 404"

definition IsUnauthorized :: "APIError \<Rightarrow> bool" where
  "IsUnauthorized e \<longleftrightarrow> Status e = 401"

definition IsForbidden :: "APIError \<Rightarrow> bool" where
  "IsForbidden e \<longleftrightarrow> Status e = 403"

definition IsBadRequest :: "APIError \<Rightarrow> bool" where
  "IsBadRequest e \<longleftrightarrow> Status e = 400"

section \<open>Library functions the client calls\<close>

text \<open>\<^verbatim>\<open>strings.Join(elems, sep)\<close>\<close>

fun Join :: "string list \<Rightarrow> string \<Rightarrow> string" where
  "Join [] sep = []"
| "Join [x] sep = x"
| "Join (x # y # ys) sep = x @ sep @ Join (y # ys) sep"

text \<open>\<^verbatim>\<open>strconv.Itoa\<close>: the decimal digits, with a leading minus sign below zero.\<close>

definition digit_char :: "nat \<Rightarrow> char" where
  "digit_char n = char_of (48 + n)"

fun decimal :: "nat \<Rightarrow> string" where
  "decimal n = (if n < 10 then [digit_char n] else decimal (n div 10) @ [digit_char (n mod 10)])"

declare decimal.simps [simp del]

definition Itoa :: "int \<Rightarrow> string" where
  "Itoa i = (if i < 0 then CHR ''-'' # decimal (nat (- i)) else decimal (nat i))"

text \<open>
  \<^verbatim>\<open>url.QueryEscape\<close>: letters, digits and \<^verbatim>\<open>-_.~\<close> stay, a space becomes
  \<^verbatim>\<open>+\<close>, every other byte becomes \<^verbatim>\<open>%XX\<close> in upper-case hexadecimal.
\<close>

definition shouldEscape :: "char \<Rightarrow> bool" where
  "shouldEscape c \<longleftrightarrow>
     \<not> ((CHR ''a'' \<le> c \<and> c \<le> CHR ''z'') \<or> (CHR ''A'' \<le> c \<and> c \<le> CHR ''Z'')
        \<or> (CHR ''0'' \<le> c \<and> c \<le> CHR ''9'') \<or> c \<in> set ''-_.~'')"

definition upperhex :: "nat \<Rightarrow> char" where
  "upperhex n = ''0123456789ABCDEF'' ! (n mod 16)"

fun QueryEscape :: "string \<Rightarrow> string" where
  "QueryEscape [] = []"
| "QueryEscape (c # cs) =
     (if c = CHR '' '' then ''+''
      else if shouldEscape c then [CHR ''%'', upperhex (of_char c div 16), upperhex (of_char c)]
      else [c]) @ QueryEscape cs"

text \<open>
  \<^verbatim>\<open>url.Values\<close>, where the client only ever calls \<^verbatim>\<open>Set\<close>: each key has one
  value. \<^verbatim>\<open>Encode\<close> writes \<^verbatim>\<open>key=value\<close> pairs sorted by key, joined by \<^verbatim>\<open>&\<close>.
\<close>

type_synonym Values = "(string \<times> string) list"

definition Values_Set :: "string \<Rightarrow> string \<Rightarrow> Values \<Rightarrow> Values" where
  "Values_Set k v params = AList.update k v params"

definition Values_Encode :: "Values \<Rightarrow> string" where
  "Values_Encode params =
     Join (map (\<lambda>(k, v). QueryEscape k @ ''='' @ QueryEscape v) (sort_key fst params)) ''&''"

subsection \<open>Decoding JSON into the wire shapes\<close>

text \<open>
  How \<^verbatim>\<open>encoding/json\<close> matches an object key with a struct field named by an ASCII
  tag: after folding case. Besides the ASCII letters, the long s (bytes C5 BF) folds to
  \<^verbatim>\<open>S\<close> and the Kelvin sign (bytes E2 84 AA) to \<^verbatim>\<open>K\<close>; no other non-ASCII byte folds
  to an ASCII one.
\<close>

definition upper_ascii :: "char \<Rightarrow> char" where
  "upper_ascii c =
     (case map_of (zip ''abcdefghijklmnopqrstuvwxyz'' ''ABCDEFGHIJKLMNOPQRSTUVWXYZ'') c of
        Some u \<Rightarrow> u
      | None \<Rightarrow> c)"

fun fold_key :: "string \<Rightarrow> string" where
  "fold_key [] = []"
| "fold_key (c # cs) =
     (if c = CHR 0xC5 then
        (case cs of
           [] \<Rightarrow> [c]
         | d # ds \<Rightarrow> if d = CHR 0xBF then CHR ''S'' # fold_key ds else c # fold_key (d # ds))
      else if c = CHR 0xE2 then
        (case cs of
           [] \<Rightarrow> [c]
         | [d] \<Rightarrow> c # fold_key [d]
         | d # e # es \<Rightarrow>
             if d = CHR 0x84 \<and> e = CHR 0xAA then CHR ''K'' # fold_key es
             else c # fold_key (d # e # es))
      else upper_ascii c # fold_key cs)"

definition key_matches :: "string \<Rightarrow> string \<Rightarrow> bool" where
  "key_matches field key \<longleftrightarrow> fold_key key = fold_key field"

text \<open>
  A number decoded into a value of type \<^verbatim>\<open>any\<close> becomes a \<^verbatim>\<open>float64\<close>, by
  \<^verbatim>\<open>strconv.ParseFloat\<close>, which reports a range error when the literal rounds to
  infinity: when its magnitude is at least \<open>2 ^ 1024 - 2 ^ 970\<close>, half way between the
  largest \<^verbatim>\<open>float64\<close> and \<open>2 ^ 1024\<close>. The decoder then returns an error. Nothing
  else makes the decoding of a JSON value into \<^verbatim>\<open>any\<close> fail.
\<close>

definition float64_overflows :: "int \<Rightarrow> int \<Rightarrow> bool" where
  "float64_overflows m e =
     (if 0 \<le> e then 2 ^ 1024 - 2 ^ 970 \<le> \<bar>m\<bar> * 10 ^ nat e
      else (2 ^ 1024 - 2 ^ 970) * 10 ^ nat (- e) \<le> \<bar>m\<bar>)"

fun any_ok :: "json \<Rightarrow> bool" where
  "any_ok JNull = True"
| "any_ok (JBool b) = True"
| "any_ok (JInt i) = (\<not> float64_overflows i 0)"
| "any_ok (JNum m e) = (\<not> float64_overflows m e)"
| "any_ok (JString s) = True"
| "any_ok (JArray js) = list_all any_ok js"
| "any_ok (JObject kvs) = list_all any_ok (map snd kvs)"

text \<open>
  Decoding a JSON value into a variable that holds \<open>cur\<close>: the new contents, or
  \<open>None\<close> when the decoder reports an error. \<^verbatim>\<open>null\<close> leaves an int, a string and a
  struct as they are and makes a map or a slice nil. An int is 64 bits wide. An object
  decoded into a map that is not nil adds its members to that map; the decoding fails
  when one of the values does not decode into \<^verbatim>\<open>any\<close>.
\<close>

definition decode_int :: "json \<Rightarrow> int \<Rightarrow> int option" where
  "decode_int j cur =
     (case j of
        JNull \<Rightarrow> Some cur
      | JInt i \<Rightarrow> if - (2 ^ 63) \<le> i \<and> i < 2 ^ 63 then Some i else None
      | _ \<Rightarrow> None)"

definition decode_string :: "json \<Rightarrow> string \<Rightarrow> string option" where
  "decode_string j cur =
     (case j of
        JNull \<Rightarrow> Some cur
      | JString s \<Rightarrow> Some s
      | _ \<Rightarrow> None)"

definition decode_Record :: "json \<Rightarrow> Record \<Rightarrow> Record option" where
  "decode_Record j cur =
     (case j of
        JNull \<Rightarrow> Some None
      | JObject kvs \<Rightarrow>
          if list_all any_ok (map snd kvs)
          then Some (Some (fold (\<lambda>(k, v) m. AList.update k v m) kvs
                             (case cur of None \<Rightarrow> [] | Some m \<Rightarrow> m)))
          else None
      | _ \<Rightarrow> None)"

text \<open>
  A struct takes the members of an object one after the other, in the order of the text;
  a key that matches no field is skipped. Any other JSON value than an object or
  \<^verbatim>\<open>null\<close> is an error.
\<close>

fun decode_members :: "(string \<Rightarrow> json \<Rightarrow> 'a \<Rightarrow> 'a option) \<Rightarrow> (string \<times> json) list \<Rightarrow> 'a \<Rightarrow> 'a option" where
  "decode_members f [] a = Some a"
| "decode_members f ((k, v) # kvs) a =
     (case f k v a of
        None \<Rightarrow> None
      | Some a' \<Rightarrow> decode_members f kvs a')"

definition decode_struct :: "(string \<Rightarrow> json \<Rightarrow> 'a \<Rightarrow> 'a option) \<Rightarrow> json \<Rightarrow> 'a \<Rightarrow> 'a option" where
  "decode_struct f j a =
     (case j of
        JNull \<Rightarrow> Some a
      | JObject kvs \<Rightarrow> decode_members f kvs a
      | _ \<Rightarrow> None)"

definition apiErrorResp_member :: "string \<Rightarrow> json \<Rightarrow> apiErrorResp \<Rightarrow> apiErrorResp option" where
  "apiErrorResp_member k v a =
     (if key_matches ''status'' k then
        map_option (\<lambda>x. a\<lparr>apiErrorResp_Status := x\<rparr>) (decode_int v (apiErrorResp_Status a))
      else if key_matches ''message'' k then
        map_option (\<lambda>x. a\<lparr>apiErrorResp_Message := x\<rparr>) (decode_string v (apiErrorResp_Message a))
      else if key_matches ''data'' k then
        map_option (\<lambda>x. a\<lparr>apiErrorResp_Data := x\<rparr>) (decode_Record v (apiErrorResp_Data a))
      else Some a)"

definition decode_apiErrorResp :: "json \<Rightarrow> apiErrorResp \<Rightarrow> apiErrorResp option" where
  "decode_apiErrorResp = decode_struct apiErrorResp_member"

definition authResp_member :: "string \<Rightarrow> json \<Rightarrow> authResp \<Rightarrow> authResp option" where
  "authResp_member k v a =
     (if key_matches ''token'' k then
        map_option (\<lambda>x. a\<lparr>authResp_Token := x\<rparr>) (decode_string v (authResp_Token a))
      else if key_matches ''record'' k then
        map_option (\<lambda>x. a\<lparr>authResp_Record := x\<rparr>) (decode_Record v (authResp_Record a))
      else Some a)"

definition decode_authResp :: "json \<Rightarrow> authResp \<Rightarrow> authResp option" where
  "decode_authResp = decode_struct authResp_member"

definition impersonateResp_member :: "string \<Rightarrow> json \<Rightarrow> impersonateResp \<Rightarrow> impersonateResp option" where
  "impersonateResp_member k v a =
     (if key_matches ''token'' k then
        map_option (\<lambda>x. a\<lparr>impersonateResp_Token := x\<rparr>) (decode_string v (impersonateResp_Token a))
      else if key_matches ''record'' k then
        map_option (\<lambda>x. a\<lparr>impersonateResp_Record := x\<rparr>) (decode_Record v (impersonateResp_Record a))
      else Some a)"

definition decode_impersonateResp :: "json \<Rightarrow> impersonateResp \<Rightarrow> impersonateResp option" where
  "decode_impersonateResp = decode_struct impersonateResp_member"

text \<open>
  The \<^verbatim>\<open>items\<close> slice: element \<open>i\<close> of an array is decoded into what the slice's
  backing store holds at index \<open>i\<close> (a nil map where it holds nothing yet). The decoder
  state for a \<^verbatim>\<open>listResp\<close> is therefore the struct together with the elements of the
  backing store beyond the length of \<open>Items\<close>.
\<close>

fun decode_elems :: "json list \<Rightarrow> Record list \<Rightarrow> Record list option" where
  "decode_elems [] old = Some []"
| "decode_elems (j # js) old =
     (case decode_Record j (case old of [] \<Rightarrow> None | r # _ \<Rightarrow> r) of
        None \<Rightarrow> None
      | Some r' \<Rightarrow> map_option ((#) r') (decode_elems js (tl old)))"

definition decode_Items :: "json \<Rightarrow> listResp \<times> Record list \<Rightarrow> (listResp \<times> Record list) option" where
  "decode_Items j st =
     (case st of (a, spare) \<Rightarrow>
        (case j of
           JNull \<Rightarrow> Some (a\<lparr>Items := []\<rparr>, [])
         | JArray js \<Rightarrow>
             (case decode_elems js (Items a @ spare) of
                None \<Rightarrow> None
              | Some rs \<Rightarrow>
                  Some (a\<lparr>Items := rs\<rparr>, if js = [] then [] else drop (length js) (Items a @ spare)))
         | _ \<Rightarrow> None))"

definition listResp_member :: "string \<Rightarrow> json \<Rightarrow> listResp \<times> Record list \<Rightarrow> (listResp \<times> Record list) option" where
  "listResp_member k v st =
     (case st of (a, spare) \<Rightarrow>
        if key_matches ''page'' k then
          map_option (\<lambda>x. (a\<lparr>listResp_Page := x\<rparr>, spare)) (decode_int v (listResp_Page a))
        else if key_matches ''perPage'' k then
          map_option (\<lambda>x. (a\<lparr>listResp_PerPage := x\<rparr>, spare)) (decode_int v (listResp_PerPage a))
        else if key_matches ''totalItems'' k then
          map_option (\<lambda>x. (a\<lparr>TotalItems := x\<rparr>, spare)) (decode_int v (TotalItems a))
        else if key_matches ''totalPages'' k then
          map_option (\<lambda>x. (a\<lparr>TotalPages := x\<rparr>, spare)) (decode_int v (TotalPages a))
        else if key_matches ''items'' k then decode_Items v st
        else Some st)"

definition decode_listResp :: "json \<Rightarrow> listResp \<Rightarrow> listResp option" where
  "decode_listResp j a = map_option fst (decode_struct listResp_member j (a, []))"

text \<open>The zero values of the wire shapes, as \<^verbatim>\<open>var resp T\<close> declares them.\<close>

definition zero_apiErrorResp :: apiErrorResp where
  "zero_apiErrorResp = \<lparr>apiErrorResp_Status = 0, apiErrorResp_Message = [], apiErrorResp_Data = None\<rparr>"

definition zero_authResp :: authResp where
  "zero_authResp = \<lparr>authResp_Token = [], authResp_Record = None\<rparr>"

definition zero_impersonateResp :: impersonateResp where
  "zero_impersonateResp = \<lparr>impersonateResp_Token = [], impersonateResp_Record = None\<rparr>"

definition zero_listResp :: listResp where
  "zero_listResp = \<lparr>listResp_Page = 0, listResp_PerPage = 0, TotalItems = 0, TotalPages = 0, Items = []\<rparr>"

section \<open>Transport (client.go: doRequest, doMultipartRequest)\<close>

text \<open>
  What goes over the wire. The payload of a request is empty, the text that
  \<^verbatim>\<open>json.Marshal\<close> writes for a value, or the parts of a multipart form in the order
  they were written. A form field holds plain text or marshalled JSON text.
\<close>

datatype field_text = Text string | JsonText json

datatype part =
    FormField string field_text
  | FormFile string string string

datatype payload =
    EmptyPayload
  | JsonPayload json
  | MultipartPayload "part list"

record http_request =
  req_method :: string
  req_url :: string
  req_headers :: "(string \<times> string) list"
  req_payload :: payload

text \<open>
  \<^verbatim>\<open>http.Response\<close>: \<open>StatusCode\<close>, the status line \<open>StatusText\<close> (\<^verbatim>\<open>resp.Status\<close>)
  and the body as the JSON decoder sees it: the first JSON value of the stream that the
  decoder's scanner reads, or \<open>None\<close> when the scanner reports an error (empty body,
  syntax error, nesting beyond the scanner's limit).
\<close>

record http_response =
  StatusCode :: int
  StatusText :: string
  ResponseBody :: "json option"

text \<open>
  The HTTP stack below the client, with the remote server: whether
  \<^verbatim>\<open>http.NewRequestWithContext\<close> accepts a method and URL, what
  \<^verbatim>\<open>HTTPClient.Do\<close> answers to a request given the requests made before it
  (\<open>None\<close> is a transport error, a cancelled context included), and the boundary that a
  new multipart writer draws. The requests handed to \<^verbatim>\<open>Do\<close> so far are the state that
  every operation threads through.
\<close>

record network =
  NewRequest_ok :: "string \<Rightarrow> string \<Rightarrow> bool"
  Do :: "http_request list \<Rightarrow> http_request \<Rightarrow> http_response option"
  Boundary :: "http_request list \<Rightarrow> string"

text \<open>
  The \<^verbatim>\<open>body any\<close> argument of \<^verbatim>\<open>doRequest\<close>: nil, a \<^verbatim>\<open>*FileUploadOptions\<close>, or
  any other value, given by what \<^verbatim>\<open>json.Marshal\<close> makes of it (\<open>None\<close> when it fails).
\<close>

datatype body =
    NilBody
  | ValueBody "json option"
  | FileUploadBody FileUploadOptions

definition decode_body :: "(json \<Rightarrow> 'a \<Rightarrow> 'a option) \<Rightarrow> json option \<Rightarrow> 'a \<Rightarrow> 'a option" where
  "decode_body dec b out = (case b of None \<Rightarrow> None | Some j \<Rightarrow> dec j out)"

fun writeData :: "(string \<times> form_value) list \<Rightarrow> part list \<Rightarrow> error + part list" where
  "writeData [] w = Inr w"
| "writeData ((key, val) # rest) w =
     (case val of
        FormString v \<Rightarrow> writeData rest (w @ [FormField key (Text v)])
      | FormPrimitive v \<Rightarrow> writeData rest (w @ [FormField key (Text v)])
      | FormComplex None \<Rightarrow> Inl (LocalError (''failed to marshal form field '' @ key))
      | FormComplex (Some j) \<Rightarrow> writeData rest (w @ [FormField key (JsonText j)]))"

fun writeDeletes :: "string \<Rightarrow> string list \<Rightarrow> part list \<Rightarrow> part list" where
  "writeDeletes deleteFieldName [] w = w"
| "writeDeletes deleteFieldName (filename # rest) w =
     writeDeletes deleteFieldName rest (w @ [FormField deleteFieldName (Text filename)])"

fun writeFiles :: "string \<Rightarrow> FileData list \<Rightarrow> part list \<Rightarrow> error + part list" where
  "writeFiles fieldName [] w = Inr w"
| "writeFiles fieldName (file # rest) w =
     (case Reader file of
        ReadError \<Rightarrow> Inl (LocalError ''failed to copy file data'')
      | Bytes content \<Rightarrow> writeFiles fieldName rest (w @ [FormFile fieldName (Filename file) content]))"

fun writeUploads :: "FileUpload list \<Rightarrow> part list \<Rightarrow> error + part list" where
  "writeUploads [] w = Inr w"
| "writeUploads (upload # rest) w =
     (let fieldName = Field upload;
          w1 = (if length (Delete upload) > 0
                then writeDeletes (fieldName @ ''-'') (Delete upload) w else w);
          fieldName' = (if Append upload then fieldName @ ''+'' else fieldName)
      in case writeFiles fieldName' (Files upload) w1 of
           Inl e \<Rightarrow> Inl e
         | Inr w2 \<Rightarrow> writeUploads rest w2)"

text \<open>
  The multipart writer writes into a \<^verbatim>\<open>bytes.Buffer\<close>, whose writes never fail:
  \<^verbatim>\<open>WriteField\<close>, \<^verbatim>\<open>CreateFormFile\<close> and \<^verbatim>\<open>Close\<close> return no error, and the only
  failures before the request is built are a form value that does not marshal and a
  file reader that fails.
\<close>

definition doMultipartRequest ::
  "network \<Rightarrow> Client \<Rightarrow> string \<Rightarrow> string \<Rightarrow> FileUploadOptions \<Rightarrow>
   (json \<Rightarrow> 'a \<Rightarrow> 'a option) option \<Rightarrow> 'a \<Rightarrow> http_request list \<Rightarrow> (error + 'a) \<times> http_request list" where
  "doMultipartRequest net c method endpoint fileUploads dec out lg =
     (let params0 = ([] :: Values);
          params1 = (if length (FileUploadOptions_Expand fileUploads) > 0
                     then Values_Set ''expand'' (Join (FileUploadOptions_Expand fileUploads) '','') params0
                     else params0);
          params2 = (if length (FileUploadOptions_Fields fileUploads) > 0
                     then Values_Set ''fields'' (Join (FileUploadOptions_Fields fileUploads) '','') params1
                     else params1);
          fullURL = BaseURL c @ endpoint @ (if length params2 > 0 then ''?'' @ Values_Encode params2 else [])
      in case (case FormData fileUploads of None \<Rightarrow> Inr [] | Some d \<Rightarrow> writeData d []) of
           Inl e \<Rightarrow> (Inl e, lg)
         | Inr w1 \<Rightarrow>
             (case writeUploads (Uploads fileUploads) w1 of
                Inl e \<Rightarrow> (Inl e, lg)
              | Inr w2 \<Rightarrow>
                  if \<not> NewRequest_ok net method fullURL
                  then (Inl (LocalError ''failed to create multipart request''), lg)
                  else
                    let req = \<lparr>req_method = method, req_url = fullURL,
                               req_headers =
                                 [(''Content-Type'', ''multipart/form-data; boundary='' @ Boundary net lg),
                                  (''Accept'', ''application/json''),
                                  (''User-Agent'', userAgent c)]
                                 @ (if GetToken c \<noteq> [] then [(''Authorization'', GetToken c)] else []),
                               req_payload = MultipartPayload w2\<rparr>
                    in (case Do net lg req of
                         None \<Rightarrow> (Inl (LocalError ''failed to execute multipart request''), lg @ [req])
                       | Some resp \<Rightarrow>
                           if StatusCode resp < 200 \<or> StatusCode resp \<ge> 300 then
                             (case decode_body decode_apiErrorResp (ResponseBody resp) zero_apiErrorResp of
                                None \<Rightarrow>
                                  (Inl (APIErr \<lparr>Status = StatusCode resp, Message = StatusText resp,
                                                Data = None\<rparr>), lg @ [req])
                              | Some apiErr \<Rightarrow>
                                  (Inl (APIErr \<lparr>Status = apiErrorResp_Status apiErr,
                                                Message = apiErrorResp_Message apiErr,
                                                Data = apiErrorResp_Data apiErr\<rparr>), lg @ [req]))
                           else
                             (case dec of
                                None \<Rightarrow> (Inr out, lg @ [req])
                              | Some d \<Rightarrow>
                                  (case decode_body d (ResponseBody resp) out of
                                     None \<Rightarrow> (Inl (LocalError ''failed to decode response''), lg @ [req])
                                   | Some v \<Rightarrow> (Inr v, lg @ [req]))))))"

text \<open>
  \<open>doRequest net c method endpoint body dec out lg\<close>: \<open>out\<close> is the contents of the
  variable that the \<^verbatim>\<open>out\<close> pointer points to and \<open>dec\<close> the decoding of its type
  (\<open>None\<close> for a nil \<^verbatim>\<open>out\<close>). The result is the error, or the contents of that
  variable after the call, with the requests handed to \<^verbatim>\<open>Do\<close> so far.
\<close>

definition doRequest ::
  "network \<Rightarrow> Client \<Rightarrow> string \<Rightarrow> string \<Rightarrow> body \<Rightarrow>
   (json \<Rightarrow> 'a \<Rightarrow> 'a option) option \<Rightarrow> 'a \<Rightarrow> http_request list \<Rightarrow> (error + 'a) \<times> http_request list" where
  "doRequest net c method endpoint body dec out lg =
     (case body of
        FileUploadBody fileUploads \<Rightarrow> doMultipartRequest net c method endpoint fileUploads dec out lg
      | ValueBody None \<Rightarrow> (Inl (LocalError ''failed to marshal request body''), lg)
      | _ \<Rightarrow>
          let url = BaseURL c @ endpoint;
              reqBody = (case body of ValueBody (Some j) \<Rightarrow> JsonPayload j | _ \<Rightarrow> EmptyPayload)
          in if \<not> NewRequest_ok net method url
             then (Inl (LocalError ''failed to create request''), lg)
             else
               let req = \<lparr>req_method = method, req_url = url,
                          req_headers =
                            [(''Content-Type'', ''application/json''),
                             (''Accept'', ''application/json''),
                             (''User-Agent'', userAgent c)]
                            @ (if GetToken c \<noteq> [] then [(''Authorization'', GetToken c)] else []),
                          req_payload = reqBody\<rparr>
               in (case Do net lg req of
                    None \<Rightarrow> (Inl (LocalError ''failed to execute request''), lg @ [req])
                  | Some resp \<Rightarrow>
                      if StatusCode resp < 200 \<or> StatusCode resp \<ge> 300 then
                        (case decode_body decode_apiErrorResp (ResponseBody resp) zero_apiErrorResp of
                           None \<Rightarrow>
                             (Inl (APIErr \<lparr>Status = StatusCode resp, Message = StatusText resp,
                                           Data = None\<rparr>), lg @ [req])
                         | Some apiErr \<Rightarrow>
                             (Inl (APIErr \<lparr>Status = apiErrorResp_Status apiErr,
                                           Message = apiErrorResp_Message apiErr,
                                           Data = apiErrorResp_Data apiErr\<rparr>), lg @ [req]))
                      else
                        (case dec of
                           None \<Rightarrow> (Inr out, lg @ [req])
                         | Some d \<Rightarrow>
                             (case decode_body d (ResponseBody resp) out of
                                None \<Rightarrow> (Inl (LocalError ''failed to decode response''), lg @ [req])
                              | Some v \<Rightarrow> (Inr v, lg @ [req])))))"

section \<open>Options (types.go)\<close>

definition WithExpand :: "string list \<Rightarrow> QueryOptions \<Rightarrow> QueryOptions" where
  "WithExpand fields' opts = opts\<lparr>QueryOptions_Expand := fields'\<rparr>"

definition WithFields :: "string list \<Rightarrow> QueryOptions \<Rightarrow> QueryOptions" where
  "WithFields fields' opts = opts\<lparr>QueryOptions_Fields := fields'\<rparr>"

definition WithSort :: "string \<Rightarrow> ListOptions \<Rightarrow> ListOptions" where
  "WithSort sort' opts = opts\<lparr>Sort := sort'\<rparr>"

definition WithFilter :: "string \<Rightarrow> ListOptions \<Rightarrow> ListOptions" where
  "WithFilter filter' opts = opts\<lparr>Filter := filter'\<rparr>"

definition WithListExpand :: "string list \<Rightarrow> ListOptions \<Rightarrow> ListOptions" where
  "WithListExpand fields' opts = opts\<lparr>Expand := fields'\<rparr>"

definition WithListFields :: "string list \<Rightarrow> ListOptions \<Rightarrow> ListOptions" where
  "WithListFields fields' opts = opts\<lparr>Fields := fields'\<rparr>"

definition WithPage :: "int \<Rightarrow> ListOptions \<Rightarrow> ListOptions" where
  "WithPage page opts = opts\<lparr>Page := page\<rparr>"

definition WithPerPage :: "int \<Rightarrow> ListOptions \<Rightarrow> ListOptions" where
  "WithPerPage perPage opts = opts\<lparr>PerPage := perPage\<rparr>"

definition WithAppend :: "FileUpload \<Rightarrow> FileUpload" where
  "WithAppend upload = upload\<lparr>Append := True\<rparr>"

definition WithDelete :: "string list \<Rightarrow> FileUpload \<Rightarrow> FileUpload" where
  "WithDelete filenames upload = upload\<lparr>Delete := filenames\<rparr>"

definition WithFileUpload ::
  "string \<Rightarrow> FileData list \<Rightarrow> (FileUpload \<Rightarrow> FileUpload) list \<Rightarrow> FileUploadOptions \<Rightarrow> FileUploadOptions" where
  "WithFileUpload field files options opts =
     (let upload = fold (\<lambda>option u. option u) options
                     \<lparr>Field = field, Files = files, Append = False, Delete = []\<rparr>
      in opts\<lparr>Uploads := Uploads opts @ [upload]\<rparr>)"

definition WithFormData :: "(string \<times> form_value) list option \<Rightarrow> FileUploadOptions \<Rightarrow> FileUploadOptions" where
  "WithFormData data opts = opts\<lparr>FormData := data\<rparr>"

section \<open>Operations (client.go, files.go)\<close>

text \<open>
  Every operation takes the network and the requests made so far, and returns its result
  with the requests made so far afterwards. An operation that writes the token also
  returns the client.
\<close>

definition AuthenticateWithPassword ::
  "network \<Rightarrow> Client \<Rightarrow> string \<Rightarrow> string \<Rightarrow> string \<Rightarrow> http_request list \<Rightarrow>
   (error + Record) \<times> Client \<times> http_request list" where
  "AuthenticateWithPassword net c collection identity password lg =
     (let endpoint = ''/api/collections/'' @ collection @ ''/auth-with-password'';
          body = ValueBody (Some (JObject [(''identity'', JString identity), (''password'', JString password)]))
      in case doRequest net c ''POST'' endpoint body (Some decode_authResp) zero_authResp lg of
           (Inl err, lg') \<Rightarrow> (Inl err, c, lg')
         | (Inr resp, lg') \<Rightarrow> (Inr (authResp_Record resp), SetToken c (authResp_Token resp), lg'))"

definition AuthenticateAsSuperuser ::
  "network \<Rightarrow> Client \<Rightarrow> string \<Rightarrow> string \<Rightarrow> http_request list \<Rightarrow>
   (error + Record) \<times> Client \<times> http_request list" where
  "AuthenticateAsSuperuser net c email password lg =
     AuthenticateWithPassword net c ''_superusers'' email password lg"

definition Impersonate ::
  "network \<Rightarrow> Client \<Rightarrow> string \<Rightarrow> string \<Rightarrow> int \<Rightarrow> (QueryOptions \<Rightarrow> QueryOptions) list \<Rightarrow>
   http_request list \<Rightarrow> (error + ImpersonateResult) \<times> http_request list" where
  "Impersonate net c collection recordID duration opts lg =
     (let options = fold (\<lambda>opt options. opt options) opts
                      \<lparr>QueryOptions_Expand = [], QueryOptions_Fields = []\<rparr>;
          endpoint0 = ''/api/collections/'' @ collection @ ''/impersonate/'' @ recordID;
          params0 = ([] :: Values);
          params1 = (if length (QueryOptions_Expand options) > 0
                     then Values_Set ''expand'' (Join (QueryOptions_Expand options) '','') params0
                     else params0);
          params2 = (if length (QueryOptions_Fields options) > 0
                     then Values_Set ''fields'' (Join (QueryOptions_Fields options) '','') params1
                     else params1);
          endpoint = endpoint0 @ (if length params2 > 0 then ''?'' @ Values_Encode params2 else []);
          body = (if duration > 0 then [(''duration'', JInt duration)] else []);
          bodyToSend = (if length body > 0 then ValueBody (Some (JObject body)) else NilBody)
      in case doRequest net c ''POST'' endpoint bodyToSend (Some decode_impersonateResp) zero_impersonateResp lg of
           (Inl err, lg') \<Rightarrow> (Inl err, lg')
         | (Inr resp, lg') \<Rightarrow>
             (Inr \<lparr>Token = impersonateResp_Token resp, Record = impersonateResp_Record resp\<rparr>, lg'))"

text \<open>The query parameters that \<^verbatim>\<open>getRecordPage\<close> sets.\<close>

definition getRecordPage_params :: "ListOptions \<Rightarrow> int \<Rightarrow> Values" where
  "getRecordPage_params options page =
     (let params0 = Values_Set ''page'' (Itoa page) [];
          params1 = (if PerPage options > 0
                     then Values_Set ''perPage'' (Itoa (PerPage options)) params0 else params0);
          params2 = (if Sort options \<noteq> [] then Values_Set ''sort'' (Sort options) params1 else params1);
          params3 = (if Filter options \<noteq> [] then Values_Set ''filter'' (Filter options) params2 else params2);
          params4 = (if length (Expand options) > 0
                     then Values_Set ''expand'' (Join (Expand options) '','') params3 else params3);
          params5 = (if length (Fields options) > 0
                     then Values_Set ''fields'' (Join (Fields options) '','') params4 else params4)
      in params5)"

definition getRecordPage ::
  "network \<Rightarrow> Client \<Rightarrow> string \<Rightarrow> ListOptions \<Rightarrow> int \<Rightarrow> http_request list \<Rightarrow>
   (error + listResp) \<times> http_request list" where
  "getRecordPage net c collection options page lg =
     (let endpoint = ''/api/collections/'' @ collection @ ''/records''
                     @ ''?'' @ Values_Encode (getRecordPage_params options page)
      in doRequest net c ''GET'' endpoint NilBody (Some decode_listResp) zero_listResp lg)"

text \<open>
  The \<^verbatim>\<open>for\<close> loop of \<^verbatim>\<open>GetAllRecords\<close>. Nothing in the code bounds the number of
  rounds (a server may report ever more pages), so the loop is a partial function:
  \<open>None\<close> is a run that never returns. The increment \<^verbatim>\<open>page++\<close> only happens below
  \<^verbatim>\<open>resp.TotalPages\<close>, so it never wraps around.
\<close>

partial_function (option) GetAllRecords_loop ::
  "network \<Rightarrow> Client \<Rightarrow> string \<Rightarrow> ListOptions \<Rightarrow> int \<Rightarrow> Record list \<Rightarrow> http_request list \<Rightarrow>
   ((error + Record list) \<times> http_request list) option" where
  "GetAllRecords_loop net c collection options page allRecords lg =
     (case getRecordPage net c collection (options\<lparr>Page := page\<rparr>) page lg of
        (Inl err, lg') \<Rightarrow> Some (Inl err, lg')
      | (Inr resp, lg') \<Rightarrow>
          (if page \<ge> TotalPages resp then Some (Inr (allRecords @ Items resp), lg')
           else GetAllRecords_loop net c collection (options\<lparr>Page := page\<rparr>) (page + 1)
                  (allRecords @ Items resp) lg'))"

declare GetAllRecords_loop.simps [code]

definition GetAllRecords ::
  "network \<Rightarrow> Client \<Rightarrow> string \<Rightarrow> (ListOptions \<Rightarrow> ListOptions) list \<Rightarrow> http_request list \<Rightarrow>
   ((error + Record list) \<times> http_request list) option" where
  "GetAllRecords net c collection opts lg =
     (let options = fold (\<lambda>opt options. opt options) opts
                      \<lparr>Page = 1, PerPage = 30, Sort = [], Filter = [], Expand = [], Fields = []\<rparr>
      in if Page options > 1 then
           (case getRecordPage net c collection options (Page options) lg of
              (Inl err, lg') \<Rightarrow> Some (Inl err, lg')
            | (Inr records, lg') \<Rightarrow> Some (Inr (Items records), lg'))
         else GetAllRecords_loop net c collection options 1 [] lg)"

definition UpdateRecordWithFiles ::
  "network \<Rightarrow> Client \<Rightarrow> string \<Rightarrow> string \<Rightarrow> (FileUploadOptions \<Rightarrow> FileUploadOptions) list \<Rightarrow>
   http_request list \<Rightarrow> (error + Record) \<times> http_request list" where
  "UpdateRecordWithFiles net c collection recordID fileUploads lg =
     (let options = fold (\<lambda>opt options. opt options) fileUploads
                      \<lparr>Uploads = [], FormData = None,
                       FileUploadOptions_Expand = [], FileUploadOptions_Fields = []\<rparr>;
          endpoint = ''/api/collections/'' @ collection @ ''/records/'' @ recordID
      in doRequest net c ''PATCH'' endpoint (FileUploadBody options) (Some decode_Record) None lg)"

section \<open>Notions used in the statements\<close>

text \<open>The request that \<^verbatim>\<open>doRequest\<close> builds for a JSON call.\<close>

definition json_request :: "Client \<Rightarrow> string \<Rightarrow> string \<Rightarrow> payload \<Rightarrow> http_request" where
  "json_request c method endpoint pl =
     \<lparr>req_method = method, req_url = BaseURL c @ endpoint,
      req_headers =
        [(''Content-Type'', ''application/json''),
         (''Accept'', ''application/json''),
         (''User-Agent'', userAgent c)]
        @ (if GetToken c \<noteq> [] then [(''Authorization'', GetToken c)] else []),
      req_payload = pl\<rparr>"

text \<open>
  What the response handling of \<^verbatim>\<open>doRequest\<close> and \<^verbatim>\<open>doMultipartRequest\<close>
  makes of a response: the API error of a response outside 2xx, and the result.
\<close>

definition api_error_of :: "http_response \<Rightarrow> APIError" where
  "api_error_of resp =
     (case decode_body decode_apiErrorResp (ResponseBody resp) zero_apiErrorResp of
        None \<Rightarrow> \<lparr>Status = StatusCode resp, Message = StatusText resp, Data = None\<rparr>
      | Some apiErr \<Rightarrow>
          \<lparr>Status = apiErrorResp_Status apiErr, Message = apiErrorResp_Message apiErr,
           Data = apiErrorResp_Data apiErr\<rparr>)"

definition response_result :: "http_response \<Rightarrow> (json \<Rightarrow> 'a \<Rightarrow> 'a option) option \<Rightarrow> 'a \<Rightarrow> error + 'a" where
  "response_result resp dec out =
     (if StatusCode resp < 200 \<or> StatusCode resp \<ge> 300 then Inl (APIErr (api_error_of resp))
      else (case dec of
              None \<Rightarrow> Inr out
            | Some d \<Rightarrow>
                (case decode_body d (ResponseBody resp) out of
                   None \<Rightarrow> Inl (LocalError ''failed to decode response'')
                 | Some v \<Rightarrow> Inr v)))"

definition payload_of :: "body \<Rightarrow> payload" where
  "payload_of b = (case b of ValueBody (Some j) \<Rightarrow> JsonPayload j | _ \<Rightarrow> EmptyPayload)"

definition is_json_body :: "body \<Rightarrow> bool" where
  "is_json_body b = (case b of NilBody \<Rightarrow> True | ValueBody (Some j) \<Rightarrow> True | _ \<Rightarrow> False)"

text \<open>The parts that \<^verbatim>\<open>doMultipartRequest\<close> writes, form data first, then the uploads.\<close>

definition multipart_parts :: "FileUploadOptions \<Rightarrow> error + part list" where
  "multipart_parts fu =
     (case (case FormData fu of None \<Rightarrow> Inr [] | Some d \<Rightarrow> writeData d []) of
        Inl e \<Rightarrow> Inl e
      | Inr w1 \<Rightarrow> writeUploads (Uploads fu) w1)"

definition multipart_outcome ::
  "network \<Rightarrow> string \<Rightarrow> FileUploadOptions \<Rightarrow> (json \<Rightarrow> 'a \<Rightarrow> 'a option) option \<Rightarrow> 'a \<Rightarrow>
   http_request list \<Rightarrow> string \<Rightarrow> (string \<times> string) list \<Rightarrow> (error + 'a) \<times> http_request list" where
  "multipart_outcome net m fu dec out lg url hdrs =
     (case multipart_parts fu of
        Inl e \<Rightarrow> (Inl e, lg)
      | Inr w \<Rightarrow>
          if \<not> NewRequest_ok net m url then (Inl (LocalError ''failed to create multipart request''), lg)
          else (case Do net lg \<lparr>req_method = m, req_url = url, req_headers = hdrs, req_payload = MultipartPayload w\<rparr> of
                  None \<Rightarrow> (Inl (LocalError ''failed to execute multipart request''),
                            lg @ [\<lparr>req_method = m, req_url = url, req_headers = hdrs, req_payload = MultipartPayload w\<rparr>])
                | Some resp \<Rightarrow> (response_result resp dec out,
                            lg @ [\<lparr>req_method = m, req_url = url, req_headers = hdrs, req_payload = MultipartPayload w\<rparr>])))"

text \<open>
  The options that \<^verbatim>\<open>GetAllRecords\<close> builds from its arguments, and the request
  that \<^verbatim>\<open>getRecordPage\<close> builds for a page.
\<close>

definition list_options :: "(ListOptions \<Rightarrow> ListOptions) list \<Rightarrow> ListOptions" where
  "list_options opts =
     fold (\<lambda>opt options. opt options) opts
       \<lparr>Page = 1, PerPage = 30, Sort = [], Filter = [], Expand = [], Fields = []\<rparr>"

definition page_endpoint :: "string \<Rightarrow> ListOptions \<Rightarrow> int \<Rightarrow> string" where
  "page_endpoint collection options page =
     ''/api/collections/'' @ collection @ ''/records'' @ ''?''
     @ Values_Encode (getRecordPage_params options page)"

definition page_request :: "Client \<Rightarrow> string \<Rightarrow> ListOptions \<Rightarrow> int \<Rightarrow> http_request" where
  "page_request c collection options page =
     json_request c ''GET'' (page_endpoint collection options page) EmptyPayload"

text \<open>
  When the decoder rejects a JSON value for the error shape: the value is neither an
  object nor \<^verbatim>\<open>null\<close>, or one of its members is matched by the field \<^verbatim>\<open>status\<close>
  and is neither \<^verbatim>\<open>null\<close> nor a 64-bit integer, by \<^verbatim>\<open>message\<close> and is neither
  \<^verbatim>\<open>null\<close> nor a string, or by \<^verbatim>\<open>data\<close> and is neither \<^verbatim>\<open>null\<close> nor an object
  whose numbers all fit a \<^verbatim>\<open>float64\<close>.
\<close>

definition null_or_int64 :: "json \<Rightarrow> bool" where
  "null_or_int64 v = (case v of JNull \<Rightarrow> True | JInt i \<Rightarrow> - (2 ^ 63) \<le> i \<and> i < 2 ^ 63 | _ \<Rightarrow> False)"

definition null_or_string :: "json \<Rightarrow> bool" where
  "null_or_string v = (case v of JNull \<Rightarrow> True | JString s \<Rightarrow> True | _ \<Rightarrow> False)"

definition null_or_object :: "json \<Rightarrow> bool" where
  "null_or_object v =
     (case v of JNull \<Rightarrow> True | JObject kvs \<Rightarrow> list_all any_ok (map snd kvs) | _ \<Rightarrow> False)"

definition member_conflict :: "string \<Rightarrow> json \<Rightarrow> bool" where
  "member_conflict k v =
     (if key_matches ''status'' k then \<not> null_or_int64 v
      else if key_matches ''message'' k then \<not> null_or_string v
      else if key_matches ''data'' k then \<not> null_or_object v
      else False)"

definition error_shape_conflict :: "json \<Rightarrow> bool" where
  "error_shape_conflict j =
     (case j of
        JNull \<Rightarrow> False
      | JObject kvs \<Rightarrow> list_ex (\<lambda>(k, v). member_conflict k v) kvs
      | _ \<Rightarrow> True)"

definition has_member :: "string \<Rightarrow> json \<Rightarrow> bool" where
  "has_member field j =
     (case j of JObject kvs \<Rightarrow> list_ex (\<lambda>(k, v). key_matches field k) kvs | _ \<Rightarrow> False)"

text \<open>
  The spec's words for a well-formed error body: valid JSON of the shape
  \<open>{status (int), message (string), data (mapping)}\<close>.
\<close>

definition matches_error_shape :: "json option \<Rightarrow> bool" where
  "matches_error_shape b =
     (case b of
        Some (JObject kvs) \<Rightarrow>
          (case map_of kvs ''status'' of Some (JInt i) \<Rightarrow> True | _ \<Rightarrow> False)
          \<and> (case map_of kvs ''message'' of Some (JString s) \<Rightarrow> True | _ \<Rightarrow> False)
          \<and> (case map_of kvs ''data'' of Some (JObject d) \<Rightarrow> True | _ \<Rightarrow> False)
      | _ \<Rightarrow> False)"

text \<open>
  The parts that the spec describes for one upload directive: one form field
  \<^verbatim>\<open><field>-\<close> per filename to delete, then one file part per file, under
  \<^verbatim>\<open><field>+\<close> when the directive appends and under the bare field name otherwise.
  A directive is readable when none of its file readers fails.
\<close>

definition file_content :: "reader \<Rightarrow> string" where
  "file_content r = (case r of Bytes content \<Rightarrow> content | ReadError \<Rightarrow> [])"

definition readable :: "FileUpload \<Rightarrow> bool" where
  "readable upload = list_all (\<lambda>file. Reader file \<noteq> ReadError) (Files upload)"

definition upload_parts :: "FileUpload \<Rightarrow> part list" where
  "upload_parts upload =
     map (\<lambda>filename. FormField (Field upload @ ''-'') (Text filename)) (Delete upload)
     @ map (\<lambda>file. FormFile (if Append upload then Field upload @ ''+'' else Field upload)
                     (Filename file) (file_content (Reader file)))
         (Files upload)"

text \<open>Whether the payload of a request is a JSON object with a given key.\<close>

definition payload_has_key :: "payload \<Rightarrow> string \<Rightarrow> bool" where
  "payload_has_key pl k =
     (case pl of JsonPayload (JObject kvs) \<Rightarrow> k \<in> fst ` set kvs | _ \<Rightarrow> False)"

section \<open>Example clients and servers\<close>

text \<open>
  A client as \<^verbatim>\<open>NewClient\<close> makes it, a server that answers every request with the
  same response, and a server that answers the \<open>k\<close>-th request it sees with the
  \<open>k\<close>-th body of a list.
\<close>

definition demo_client :: Client where
  "demo_client = \<lparr>BaseURL = ''http://localhost:8090'', userAgent = ''pocketbase-go/1.0'', token = []\<rparr>"

definition static_server :: "http_response \<Rightarrow> network" where
  "static_server resp =
     \<lparr>NewRequest_ok = (\<lambda>method url. True), Do = (\<lambda>lg req. Some resp), Boundary = (\<lambda>lg. ''b0'')\<rparr>"

definition paged_server :: "json list \<Rightarrow> network" where
  "paged_server bodies =
     \<lparr>NewRequest_ok = (\<lambda>method url. True),
      Do = (\<lambda>lg req. if length lg < length bodies
                       then Some \<lparr>StatusCode = 200, StatusText = ''200 OK'', ResponseBody = Some (bodies ! length lg)\<rparr>
                       else None),
      Boundary = (\<lambda>lg. ''b0'')\<rparr>"

definition empty_object_500 :: http_response where
  "empty_object_500 = \<lparr>StatusCode = 500, StatusText = ''500 Internal Server Error'', ResponseBody = Some (JObject [])\<rparr>"

definition plain_text_500 :: http_response where
  "plain_text_500 = \<lparr>StatusCode = 500, StatusText = ''500 Internal Server Error'', ResponseBody = None\<rparr>"

definition overflow_404 :: http_response where
  "overflow_404 = \<lparr>StatusCode = 404, StatusText = ''404 Not Found'',
      ResponseBody = Some (JObject [(''status'', JInt 404), (''message'', JString ''m''),
                                    (''data'', JObject [(''n'', JNum 1 999)])])\<rparr>"

definition not_found_404 :: http_response where
  "not_found_404 = \<lparr>StatusCode = 404, StatusText = ''404 Not Found'',
      ResponseBody = Some (JObject [(''status'', JInt 404), (''message'', JString ''The requested resource was not found.''), (''data'', JObject [])])\<rparr>"

definition page_body :: "int \<Rightarrow> int \<Rightarrow> json list \<Rightarrow> json" where
  "page_body page totalPages items =
     JObject [(''page'', JInt page), (''perPage'', JInt 30), (''totalItems'', JInt (int (length items))),
              (''totalPages'', JInt totalPages), (''items'', JArray items)]"

text \<open>Page bodies of a collection with three records on two pages, and of an empty one.\<close>

definition two_pages :: "json list" where
  "two_pages =
     [page_body 1 2 [JObject [(''id'', JString ''a'')]],
      page_body 2 2 [JObject [(''id'', JString ''b'')], JObject [(''id'', JString ''c'')]]]"

definition two_pages_decoded :: "int \<Rightarrow> listResp" where
  "two_pages_decoded p =
     (if p = 1
      then \<lparr>listResp_Page = 1, listResp_PerPage = 30, TotalItems = 1, TotalPages = 2,
            Items = [Some [(''id'', JString ''a'')]]\<rparr>
      else \<lparr>listResp_Page = 2, listResp_PerPage = 30, TotalItems = 2, TotalPages = 2,
            Items = [Some [(''id'', JString ''b'')], Some [(''id'', JString ''c'')]]\<rparr>)"

definition empty_page_decoded :: "int \<Rightarrow> listResp" where
  "empty_page_decoded p =
     \<lparr>listResp_Page = 1, listResp_PerPage = 30, TotalItems = 0, TotalPages = 0, Items = []\<rparr>"

definition page_2_of_5 :: http_response where
  "page_2_of_5 =
     \<lparr>StatusCode = 200, StatusText = ''200 OK'',
      ResponseBody = Some (page_body 2 5 [JObject [(''id'', JString ''b'')]])\<rparr>"

definition page_2_of_5_decoded :: listResp where
  "page_2_of_5_decoded =
     \<lparr>listResp_Page = 2, listResp_PerPage = 30, TotalItems = 1, TotalPages = 5,
      Items = [Some [(''id'', JString ''b'')]]\<rparr>"

text \<open>Responses to an update, to a password authentication that succeeds, and to one that fails.\<close>

definition record_200 :: http_response where
  "record_200 = \<lparr>StatusCode = 200, StatusText = ''200 OK'', ResponseBody = Some (JObject [(''id'', JString ''u1'')])\<rparr>"

definition auth_200 :: http_response where
  "auth_200 =
     \<lparr>StatusCode = 200, StatusText = ''200 OK'',
      ResponseBody = Some (JObject [(''token'', JString ''tok123''),
                                    (''record'', JObject [(''id'', JString ''u1'')])])\<rparr>"

definition auth_400 :: http_response where
  "auth_400 =
     \<lparr>StatusCode = 400, StatusText = ''400 Bad Request'',
      ResponseBody = Some (JObject [(''status'', JInt 400), (''message'', JString ''Failed to authenticate.''),
                                    (''data'', JObject [])])\<rparr>"

text \<open>
  Two upload directives: delete two files of \<^verbatim>\<open>avatar\<close>, and append one file to
  \<^verbatim>\<open>files\<close>; and the bundle that \<^verbatim>\<open>UpdateRecordWithFiles\<close> builds from its options.
\<close>

definition demo_uploads :: "(FileUploadOptions \<Rightarrow> FileUploadOptions) list" where
  "demo_uploads =
     [WithFileUpload ''avatar'' [] [WithDelete [''a.png'', ''b.png'']],
      WithFileUpload ''files'' [\<lparr>Reader = Bytes ''%PDF'', Filename = ''c.pdf'', Size = 4\<rparr>] [WithAppend]]"

definition upload_options :: "(FileUploadOptions \<Rightarrow> FileUploadOptions) list \<Rightarrow> FileUploadOptions" where
  "upload_options fileUploads =
     fold (\<lambda>opt options. opt options) fileUploads
       \<lparr>Uploads = [], FormData = None, FileUploadOptions_Expand = [], FileUploadOptions_Fields = []\<rparr>"

section \<open>Transport: what a call does\<close>

lemma response_pair:
  "(case r of
      None \<Rightarrow> (Inl e1, l)
    | Some resp \<Rightarrow>
        if P resp then
          (case D resp of
             None \<Rightarrow> (Inl (APIErr (F resp)), l')
           | Some a \<Rightarrow> (Inl (APIErr (G a)), l'))
        else
          (case dec of
             None \<Rightarrow> (Inr out, l')
           | Some d \<Rightarrow>
               (case E d resp of
                  None \<Rightarrow> (Inl e2, l')
                | Some v \<Rightarrow> (Inr v, l'))))
   = (case r of
        None \<Rightarrow> (Inl e1, l)
      | Some resp \<Rightarrow>
          (if P resp then Inl (APIErr (case D resp of None \<Rightarrow> F resp | Some a \<Rightarrow> G a))
           else (case dec of
                   None \<Rightarrow> Inr out
                 | Some d \<Rightarrow> (case E d resp of None \<Rightarrow> Inl e2 | Some v \<Rightarrow> Inr v)), l'))"
  by (simp split: option.split)

lemma doRequest_json:
  assumes "is_json_body b"
  shows "doRequest net c m ep b dec out lg =
     (if \<not> NewRequest_ok net m (BaseURL c @ ep) then (Inl (LocalError ''failed to create request''), lg)
      else (case Do net lg (json_request c m ep (payload_of b)) of
              None \<Rightarrow> (Inl (LocalError ''failed to execute request''), lg @ [json_request c m ep (payload_of b)])
            | Some resp \<Rightarrow> (response_result resp dec out, lg @ [json_request c m ep (payload_of b)])))"
proof -
  from assms have b: "b = NilBody \<or> (\<exists>j. b = ValueBody (Some j))"
    by (cases b) (auto simp: is_json_body_def split: option.splits)
  have "doRequest net c m ep b dec out lg =
     (if \<not> NewRequest_ok net m (BaseURL c @ ep) then (Inl (LocalError ''failed to create request''), lg)
      else (case Do net lg (json_request c m ep (payload_of b)) of
                    None \<Rightarrow> (Inl (LocalError ''failed to execute request''), lg @ [json_request c m ep (payload_of b)])
                  | Some resp \<Rightarrow>
                      if StatusCode resp < 200 \<or> StatusCode resp \<ge> 300 then
                        (case decode_body decode_apiErrorResp (ResponseBody resp) zero_apiErrorResp of
                           None \<Rightarrow>
                             (Inl (APIErr \<lparr>Status = StatusCode resp, Message = StatusText resp,
                                           Data = None\<rparr>), lg @ [json_request c m ep (payload_of b)])
                         | Some apiErr \<Rightarrow>
                             (Inl (APIErr \<lparr>Status = apiErrorResp_Status apiErr,
                                           Message = apiErrorResp_Message apiErr,
                                           Data = apiErrorResp_Data apiErr\<rparr>), lg @ [json_request c m ep (payload_of b)]))
                      else
                        (case dec of
                           None \<Rightarrow> (Inr out, lg @ [json_request c m ep (payload_of b)])
                         | Some d \<Rightarrow>
                             (case decode_body d (ResponseBody resp) out of
                                None \<Rightarrow> (Inl (LocalError ''failed to decode response''), lg @ [json_request c m ep (payload_of b)])
                              | Some v \<Rightarrow> (Inr v, lg @ [json_request c m ep (payload_of b)])))))"
    using b unfolding doRequest_def json_request_def payload_of_def Let_def
    by (elim disjE exE) (simp_all only: body.case option.case)
  then show ?thesis
    unfolding response_result_def api_error_of_def by (simp only: response_pair)
qed


lemma sum_case_case:
  "(case x of Inl e \<Rightarrow> (Inl e, l) | Inr w1 \<Rightarrow> (case f w1 of Inl e \<Rightarrow> (Inl e, l) | Inr w2 \<Rightarrow> g w2))
   = (case (case x of Inl e \<Rightarrow> Inl e | Inr w1 \<Rightarrow> f w1) of Inl e \<Rightarrow> (Inl e, l) | Inr w2 \<Rightarrow> g w2)"
  by (simp split: sum.split)

lemma doMultipartRequest_cases:
  "\<exists>url hdrs. doMultipartRequest net c m ep fu dec out lg = multipart_outcome net m fu dec out lg url hdrs"
  unfolding doMultipartRequest_def Let_def multipart_parts_def response_result_def api_error_of_def
    multipart_outcome_def
  apply (simp only: response_pair sum_case_case)
  apply (rule exI, rule exI, rule refl)
  done

lemma doRequest_sent:
  assumes "snd (doRequest net c m ep b dec out lg) = lg @ [req]" and "Do net lg req = Some resp"
  shows "fst (doRequest net c m ep b dec out lg) = response_result resp dec out"
proof (cases "is_json_body b")
  case True
  show ?thesis using assms unfolding doRequest_json [OF True]
    by (simp split: if_splits option.splits)
next
  case False
  show ?thesis
  proof (cases b)
    case NilBody
    with False show ?thesis by (simp add: is_json_body_def)
  next
    case (ValueBody x)
    with False have "x = None" by (cases x) (simp_all add: is_json_body_def)
    with ValueBody assms(1) show ?thesis by (simp add: doRequest_def)
  next
    case (FileUploadBody fu)
    obtain url hdrs where e: "doMultipartRequest net c m ep fu dec out lg =
        multipart_outcome net m fu dec out lg url hdrs"
      using doMultipartRequest_cases [of net c m ep fu dec out lg] by blast
    have d: "doRequest net c m ep b dec out lg = doMultipartRequest net c m ep fu dec out lg"
      unfolding FileUploadBody doRequest_def by (simp only: body.case)
    show ?thesis using assms unfolding d e multipart_outcome_def
      by (simp split: sum.splits if_splits option.splits)
  qed
qed

text \<open>
  The range of \<^verbatim>\<open>float64\<close>: \<^verbatim>\<open>1.7976931348623157e308\<close>, the largest value, decodes,
  and \<^verbatim>\<open>1.8e308\<close> and \<^verbatim>\<open>1e999\<close> do not.
\<close>

lemma float64_overflows_examples:
  "\<not> float64_overflows 17976931348623157 292" "float64_overflows 18 307" "float64_overflows 1 999"
  "\<not> float64_overflows 15 (- 1)" "\<not> float64_overflows (2 ^ 63) 0"
  by (simp_all add: float64_overflows_def)

lemma decode_int_None: "decode_int v cur = None \<longleftrightarrow> \<not> null_or_int64 v"
  by (cases v) (simp_all add: decode_int_def null_or_int64_def)

lemma decode_string_None: "decode_string v cur = None \<longleftrightarrow> \<not> null_or_string v"
  by (cases v) (simp_all add: decode_string_def null_or_string_def)

lemma decode_Record_None: "decode_Record v cur = None \<longleftrightarrow> \<not> null_or_object v"
  by (cases v) (simp_all add: decode_Record_def null_or_object_def)

lemma apiErrorResp_member_None: "apiErrorResp_member k v a = None \<longleftrightarrow> member_conflict k v"
  by (simp add: apiErrorResp_member_def member_conflict_def decode_int_None decode_string_None
      decode_Record_None)

lemma decode_members_apiErrorResp_None:
  "decode_members apiErrorResp_member kvs a = None \<longleftrightarrow> list_ex (\<lambda>(k, v). member_conflict k v) kvs"
proof (induction kvs arbitrary: a)
  case Nil
  show ?case by simp
next
  case (Cons kv kvs)
  obtain k v where kv: "kv = (k, v)" by (cases kv)
  show ?case
  proof (cases "apiErrorResp_member k v a")
    case None
    then show ?thesis using apiErrorResp_member_None [of k v a] by (simp add: kv)
  next
    case (Some a')
    then have "\<not> member_conflict k v" using apiErrorResp_member_None [of k v a] by simp
    then show ?thesis using Some Cons.IH [of a'] by (simp add: kv)
  qed
qed

lemma decode_apiErrorResp_None:
  "decode_apiErrorResp j a = None \<longleftrightarrow> error_shape_conflict j"
  by (cases j) (simp_all add: decode_apiErrorResp_def decode_struct_def error_shape_conflict_def
      decode_members_apiErrorResp_None)

lemma apiErrorResp_member_other:
  assumes "apiErrorResp_member k v a = Some a'"
  shows "(\<not> key_matches ''status'' k \<longrightarrow> apiErrorResp_Status a' = apiErrorResp_Status a)
       \<and> (\<not> key_matches ''message'' k \<longrightarrow> apiErrorResp_Message a' = apiErrorResp_Message a)
       \<and> (\<not> key_matches ''data'' k \<longrightarrow> apiErrorResp_Data a' = apiErrorResp_Data a)"
  using assms by (auto simp: apiErrorResp_member_def split: if_splits)

lemma decode_members_apiErrorResp_absent:
  assumes "decode_members apiErrorResp_member kvs a = Some a'"
  shows "(\<not> list_ex (\<lambda>(k, v). key_matches ''status'' k) kvs \<longrightarrow> apiErrorResp_Status a' = apiErrorResp_Status a)
       \<and> (\<not> list_ex (\<lambda>(k, v). key_matches ''message'' k) kvs \<longrightarrow> apiErrorResp_Message a' = apiErrorResp_Message a)
       \<and> (\<not> list_ex (\<lambda>(k, v). key_matches ''data'' k) kvs \<longrightarrow> apiErrorResp_Data a' = apiErrorResp_Data a)"
  using assms
proof (induction kvs arbitrary: a)
  case Nil
  then show ?case by simp
next
  case (Cons kv kvs)
  obtain k v where kv: "kv = (k, v)" by (cases kv)
  from Cons.prems obtain b where b: "apiErrorResp_member k v a = Some b"
    and r: "decode_members apiErrorResp_member kvs b = Some a'"
    by (auto simp: kv split: option.splits)
  show ?case using Cons.IH [OF r] apiErrorResp_member_other [OF b] by (auto simp: kv)
qed

lemma decode_apiErrorResp_absent:
  assumes "decode_apiErrorResp j zero_apiErrorResp = Some a"
  shows "(\<not> has_member ''status'' j \<longrightarrow> apiErrorResp_Status a = 0)
       \<and> (\<not> has_member ''message'' j \<longrightarrow> apiErrorResp_Message a = [])
       \<and> (\<not> has_member ''data'' j \<longrightarrow> apiErrorResp_Data a = None)"
proof (cases j)
  case (JObject kvs)
  with assms have "decode_members apiErrorResp_member kvs zero_apiErrorResp = Some a"
    by (simp add: decode_apiErrorResp_def decode_struct_def)
  from decode_members_apiErrorResp_absent [OF this] show ?thesis
    by (simp add: JObject has_member_def zero_apiErrorResp_def)
qed (use assms in \<open>auto simp: decode_apiErrorResp_def decode_struct_def has_member_def zero_apiErrorResp_def\<close>)

lemma doRequest_json_log:
  assumes "is_json_body b"
  shows "snd (doRequest net c m ep b dec out lg) =
           (if NewRequest_ok net m (BaseURL c @ ep) then lg @ [json_request c m ep (payload_of b)] else lg)"
  unfolding doRequest_json [OF assms] by (simp split: option.split)

lemma response_result_Inr:
  assumes "response_result resp (Some d) out = Inr v"
  shows "200 \<le> StatusCode resp \<and> StatusCode resp < 300 \<and> decode_body d (ResponseBody resp) out = Some v"
  using assms by (auto simp: response_result_def split: if_splits option.splits)

lemma doRequest_json_Inr:
  assumes "is_json_body b" and "doRequest net c m ep b dec out lg = (Inr v, lg')"
  shows "lg' = lg @ [json_request c m ep (payload_of b)]
       \<and> (\<exists>resp. Do net lg (json_request c m ep (payload_of b)) = Some resp
                 \<and> response_result resp dec out = Inr v)"
  using assms(2) unfolding doRequest_json [OF assms(1)]
  by (simp split: if_splits option.splits)

lemma snd_result_case:
  "snd (case x of (Inl err, lg') \<Rightarrow> (Inl err, lg') | (Inr resp, lg') \<Rightarrow> (Inr (f resp), lg')) = snd x"
  by (cases x; cases "fst x") auto

section \<open>Responses outside 2xx\<close>

text \<open>
  Claim C3, as the code has it. When a call hands a request to the HTTP client and
  receives a response with a status outside 200..299, the call returns an API error,
  never a decode error. If the body holds no JSON value, or a JSON value that the
  decoder rejects for the error shape (neither an object nor null, or a status, message
  or data member of the wrong type, or a number in the data too large for a float64),
  the error carries the HTTP status code, the HTTP status text and no data. Otherwise it
  carries the status, message and data decoded from the body, which are zero, empty and
  nil for the members the body does not have.
  This holds on the JSON path and on the multipart path, which \<open>doRequest\<close> enters
  for a file-upload body.
\<close>

theorem non_2xx_response_is_APIError:
  assumes "snd (doRequest net c m ep b dec out lg) = lg @ [req]"
      and "Do net lg req = Some resp"
      and "StatusCode resp < 200 \<or> 300 \<le> StatusCode resp"
  shows "\<exists>e. fst (doRequest net c m ep b dec out lg) = Inl (APIErr e) \<and>
          (case ResponseBody resp of
             None \<Rightarrow> e = \<lparr>Status = StatusCode resp, Message = StatusText resp, Data = None\<rparr>
           | Some j \<Rightarrow>
               if error_shape_conflict j
               then e = \<lparr>Status = StatusCode resp, Message = StatusText resp, Data = None\<rparr>
               else (\<exists>a. decode_apiErrorResp j zero_apiErrorResp = Some a
                      \<and> e = \<lparr>Status = apiErrorResp_Status a, Message = apiErrorResp_Message a,
                              Data = apiErrorResp_Data a\<rparr>)
                    \<and> (\<not> has_member ''status'' j \<longrightarrow> Status e = 0)
                    \<and> (\<not> has_member ''message'' j \<longrightarrow> Message e = [])
                    \<and> (\<not> has_member ''data'' j \<longrightarrow> Data e = None))"
proof -
  have r: "fst (doRequest net c m ep b dec out lg) = Inl (APIErr (api_error_of resp))"
    using doRequest_sent [OF assms(1,2)] assms(3) by (simp add: response_result_def)
  show ?thesis
  proof (cases "ResponseBody resp")
    case None
    then show ?thesis using r by (simp add: api_error_of_def decode_body_def)
  next
    case (Some j)
    show ?thesis
    proof (cases "error_shape_conflict j")
      case True
      then have "decode_apiErrorResp j zero_apiErrorResp = None" by (simp add: decode_apiErrorResp_None)
      then show ?thesis using r Some True by (simp add: api_error_of_def decode_body_def)
    next
      case False
      then obtain a where a: "decode_apiErrorResp j zero_apiErrorResp = Some a"
        using decode_apiErrorResp_None [of j zero_apiErrorResp] by (cases "decode_apiErrorResp j zero_apiErrorResp") auto
      show ?thesis using r Some False a decode_apiErrorResp_absent [OF a]
        by (simp add: api_error_of_def decode_body_def)
    qed
  qed
qed

theorem non_2xx_response_is_APIError_witness:
  "snd (doRequest (static_server not_found_404) demo_client ''GET'' ''/api/collections/posts/records/x''
          NilBody (Some decode_Record) None [])
     = [] @ [json_request demo_client ''GET'' ''/api/collections/posts/records/x'' EmptyPayload]
   \<and> Do (static_server not_found_404) []
         (json_request demo_client ''GET'' ''/api/collections/posts/records/x'' EmptyPayload)
       = Some not_found_404
   \<and> (StatusCode not_found_404 < 200 \<or> 300 \<le> StatusCode not_found_404)
   \<and> \<not> error_shape_conflict (the (ResponseBody not_found_404))
   \<and> fst (doRequest (static_server not_found_404) demo_client ''GET'' ''/api/collections/posts/records/x''
          NilBody (Some decode_Record) None [])
       = Inl (APIErr \<lparr>Status = 404, Message = ''The requested resource was not found.'', Data = Some []\<rparr>)
   \<and> (\<exists>e. fst (doRequest (static_server plain_text_500) demo_client ''GET'' ''/api/collections/posts/records/x''
                 NilBody (Some decode_Record) None [])
            = Inl (APIErr e)
          \<and> e = \<lparr>Status = 500, Message = ''500 Internal Server Error'', Data = None\<rparr>)
   \<and> (\<exists>e. fst (doRequest (static_server empty_object_500) demo_client ''GET'' ''/api/collections/posts/records/x''
                 NilBody (Some decode_Record) None [])
            = Inl (APIErr e)
          \<and> Status e = 0 \<and> Message e = [] \<and> Data e = None)
   \<and> fst (UpdateRecordWithFiles (static_server plain_text_500) demo_client ''users'' ''u1'' demo_uploads [])
       = Inl (APIErr \<lparr>Status = 500, Message = ''500 Internal Server Error'', Data = None\<rparr>)
   \<and> error_shape_conflict (the (ResponseBody overflow_404))
   \<and> (\<exists>e. fst (doRequest (static_server overflow_404) demo_client ''GET'' ''/api/collections/posts/records/x''
                 NilBody (Some decode_Record) None [])
            = Inl (APIErr e)
          \<and> e = \<lparr>Status = 404, Message = ''404 Not Found'', Data = None\<rparr>)"
proof -
  let ?ep = "''/api/collections/posts/records/x''"
  let ?req = "json_request demo_client ''GET'' ?ep EmptyPayload"
  have h1: "snd (doRequest (static_server not_found_404) demo_client ''GET'' ?ep
                   NilBody (Some decode_Record) None []) = [] @ [?req]"
    by code_simp
  have h2: "Do (static_server not_found_404) [] ?req = Some not_found_404"
    by code_simp
  have h3: "StatusCode not_found_404 < 200 \<or> 300 \<le> StatusCode not_found_404"
    by code_simp
  have h4: "\<not> error_shape_conflict (the (ResponseBody not_found_404))"
    by code_simp
  have c: "fst (doRequest (static_server not_found_404) demo_client ''GET'' ?ep
                  NilBody (Some decode_Record) None [])
           = Inl (APIErr \<lparr>Status = 404, Message = ''The requested resource was not found.'', Data = Some []\<rparr>)"
    by code_simp
  have g1: "snd (doRequest (static_server plain_text_500) demo_client ''GET'' ?ep
                   NilBody (Some decode_Record) None []) = [] @ [?req]"
    by code_simp
  have g2: "Do (static_server plain_text_500) [] ?req = Some plain_text_500"
    by code_simp
  have g3: "StatusCode plain_text_500 < 200 \<or> 300 \<le> StatusCode plain_text_500"
    by code_simp
  have g4: "ResponseBody plain_text_500 = None" "StatusCode plain_text_500 = 500"
    "StatusText plain_text_500 = ''500 Internal Server Error''"
    by (simp_all add: plain_text_500_def)
  have d: "\<exists>e. fst (doRequest (static_server plain_text_500) demo_client ''GET'' ?ep
                 NilBody (Some decode_Record) None []) = Inl (APIErr e)
          \<and> e = \<lparr>Status = 500, Message = ''500 Internal Server Error'', Data = None\<rparr>"
    using non_2xx_response_is_APIError [OF g1 g2 g3] by (simp add: g4)
  have e1: "snd (doRequest (static_server empty_object_500) demo_client ''GET'' ?ep
                   NilBody (Some decode_Record) None []) = [] @ [?req]"
    by code_simp
  have e2: "Do (static_server empty_object_500) [] ?req = Some empty_object_500"
    by code_simp
  have e3: "StatusCode empty_object_500 < 200 \<or> 300 \<le> StatusCode empty_object_500"
    by code_simp
  have e4: "ResponseBody empty_object_500 = Some (JObject [])"
    by (simp add: empty_object_500_def)
  have e5: "\<not> error_shape_conflict (JObject [])" "\<not> has_member ''status'' (JObject [])"
    "\<not> has_member ''message'' (JObject [])" "\<not> has_member ''data'' (JObject [])"
    by (simp_all add: error_shape_conflict_def has_member_def)
  have e: "\<exists>e. fst (doRequest (static_server empty_object_500) demo_client ''GET'' ?ep
                 NilBody (Some decode_Record) None []) = Inl (APIErr e)
          \<and> Status e = 0 \<and> Message e = [] \<and> Data e = None"
    using non_2xx_response_is_APIError [OF e1 e2 e3] by (auto simp: e4 e5)
  have m: "fst (UpdateRecordWithFiles (static_server plain_text_500) demo_client ''users'' ''u1'' demo_uploads [])
       = Inl (APIErr \<lparr>Status = 500, Message = ''500 Internal Server Error'', Data = None\<rparr>)"
    by code_simp
  have j: "is_json_body NilBody" by (simp add: is_json_body_def)
  have o1: "snd (doRequest (static_server overflow_404) demo_client ''GET'' ?ep
                   NilBody (Some decode_Record) None []) = [] @ [?req]"
    by (simp add: doRequest_json_log [OF j] payload_of_def static_server_def)
  have o2: "Do (static_server overflow_404) [] ?req = Some overflow_404"
    by (simp add: static_server_def)
  have o3: "StatusCode overflow_404 < 200 \<or> 300 \<le> StatusCode overflow_404"
    by (simp add: overflow_404_def)
  have k: "key_matches ''status'' ''status''" "\<not> key_matches ''status'' ''message''"
    "key_matches ''message'' ''message''" "\<not> key_matches ''status'' ''data''"
    "\<not> key_matches ''message'' ''data''" "key_matches ''data'' ''data''"
    by code_simp+
  have f: "float64_overflows 1 999"
    by (simp add: float64_overflows_def)
  have o4: "error_shape_conflict (the (ResponseBody overflow_404))"
    by (simp add: overflow_404_def error_shape_conflict_def member_conflict_def k
        null_or_int64_def null_or_string_def null_or_object_def f)
  have o5: "ResponseBody overflow_404
              = Some (JObject [(''status'', JInt 404), (''message'', JString ''m''),
                               (''data'', JObject [(''n'', JNum 1 999)])])"
    "StatusCode overflow_404 = 404" "StatusText overflow_404 = ''404 Not Found''"
    by (simp_all add: overflow_404_def)
  have o: "\<exists>e. fst (doRequest (static_server overflow_404) demo_client ''GET'' ?ep
                 NilBody (Some decode_Record) None []) = Inl (APIErr e)
          \<and> e = \<lparr>Status = 404, Message = ''404 Not Found'', Data = None\<rparr>"
    using non_2xx_response_is_APIError [OF o1 o2 o3] o4 by (simp add: o5)
  show ?thesis by (intro conjI) (rule h1 h2 h3 h4 c d e m o4 o)+
qed

text \<open>
  Claim C3 as the spec words it fails: a 500 response whose body is the JSON object
  \<open>{}\<close> does not have the expected error shape, yet the decoder accepts it and the
  returned error has status 0 and an empty message instead of the HTTP status code and
  status text.
\<close>

theorem error_shape_counterexample:
  "(StatusCode empty_object_500 < 200 \<or> 300 \<le> StatusCode empty_object_500)
   \<and> \<not> matches_error_shape (ResponseBody empty_object_500)
   \<and> doRequest (static_server empty_object_500) demo_client ''GET'' ''/api/collections/posts/records/x''
         NilBody (Some decode_Record) None []
       = (Inl (APIErr \<lparr>Status = 0, Message = [], Data = None\<rparr>),
          [json_request demo_client ''GET'' ''/api/collections/posts/records/x'' EmptyPayload])
   \<and> Status \<lparr>Status = 0, Message = [], Data = None\<rparr> \<noteq> StatusCode empty_object_500
   \<and> Message \<lparr>Status = 0, Message = [], Data = None\<rparr> \<noteq> StatusText empty_object_500"
  by code_simp

section \<open>Pagination (GetAllRecords, getRecordPage)\<close>

lemma getRecordPage_params_Page [simp]:
  "getRecordPage_params (options\<lparr>Page := q\<rparr>) page = getRecordPage_params options page"
  by (simp add: getRecordPage_params_def Let_def)

lemma page_request_Page [simp]:
  "page_request c collection (options\<lparr>Page := q\<rparr>) page = page_request c collection options page"
  by (simp add: page_request_def page_endpoint_def)

lemma page_request_Page' [simp]:
  "page_request c collection (options\<lparr>Page := q\<rparr>) = page_request c collection options"
  by (rule ext) simp

lemma getRecordPage_Page [simp]:
  "getRecordPage net c collection (options\<lparr>Page := q\<rparr>) page lg = getRecordPage net c collection options page lg"
  by (simp add: getRecordPage_def)

lemma getRecordPage_eq:
  "getRecordPage net c collection options page lg =
     (if \<not> NewRequest_ok net ''GET'' (BaseURL c @ page_endpoint collection options page)
      then (Inl (LocalError ''failed to create request''), lg)
      else (case Do net lg (page_request c collection options page) of
              None \<Rightarrow> (Inl (LocalError ''failed to execute request''),
                        lg @ [page_request c collection options page])
            | Some resp \<Rightarrow> (response_result resp (Some decode_listResp) zero_listResp,
                        lg @ [page_request c collection options page])))"
proof -
  have j: "is_json_body NilBody" by (simp add: is_json_body_def)
  have p: "payload_of NilBody = EmptyPayload" by (simp add: payload_of_def)
  show ?thesis
    unfolding getRecordPage_def Let_def page_request_def page_endpoint_def
    by (simp only: doRequest_json [OF j] p)
qed

lemma getRecordPage_log:
  "snd (getRecordPage net c collection options page lg) =
     (if NewRequest_ok net ''GET'' (BaseURL c @ page_endpoint collection options page)
      then lg @ [page_request c collection options page] else lg)"
  by (simp add: getRecordPage_eq split: option.split)

lemma getRecordPage_Inr_log:
  assumes "fst (getRecordPage net c collection options page lg) = Inr r"
  shows "getRecordPage net c collection options page lg = (Inr r, lg @ [page_request c collection options page])"
  using assms by (simp add: getRecordPage_eq split: if_splits option.splits)

text \<open>
  A page fetch succeeds exactly when the request can be built, the HTTP client answers
  it with a 2xx status, and the body decodes as a list response.
\<close>

lemma getRecordPage_Inr_iff:
  "fst (getRecordPage net c collection options page lg) = Inr r \<longleftrightarrow>
     NewRequest_ok net ''GET'' (BaseURL c @ page_endpoint collection options page)
     \<and> (\<exists>resp. Do net lg (page_request c collection options page) = Some resp
            \<and> 200 \<le> StatusCode resp \<and> StatusCode resp < 300
            \<and> decode_body decode_listResp (ResponseBody resp) zero_listResp = Some r)"
  by (auto simp: getRecordPage_eq response_result_def split: option.splits if_splits)

text \<open>
  The loop against a server that reports the same total with every page: it returns
  after the pages from \<open>page\<close> to \<open>max N page\<close>.
\<close>

lemma loop_fixed_total:
  fixes N page :: int
  assumes "\<And>p. page \<le> p \<Longrightarrow> p \<le> max N page \<Longrightarrow>
             fst (getRecordPage net c collection options p
                    (lg @ map (page_request c collection options) [page..p - 1])) = Inr (pg p)
             \<and> TotalPages (pg p) = N"
  shows "GetAllRecords_loop net c collection options page acc lg =
           Some (Inr (acc @ concat (map (\<lambda>p. Items (pg p)) [page..max N page])),
                 lg @ map (page_request c collection options) [page..max N page])"
  using assms
proof (induction "nat (N - page)" arbitrary: page acc lg options)
  case 0
  then have le: "N \<le> page" by simp
  then have m: "max N page = page" by simp
  from "0.prems" [of page] m
  have "fst (getRecordPage net c collection options page lg) = Inr (pg page)"
    and t: "TotalPages (pg page) = N" by simp_all
  from getRecordPage_Inr_log [OF this(1)]
  have g: "getRecordPage net c collection options page lg
           = (Inr (pg page), lg @ [page_request c collection options page])" .
  show ?case
    by (subst GetAllRecords_loop.simps) (simp add: g t le m)
next
  case (Suc k)
  then have lt: "page < N" by simp
  then have m: "max N page = N" "max N (page + 1) = N" by simp_all
  from Suc.prems [of page] lt
  have "fst (getRecordPage net c collection options page lg) = Inr (pg page)"
    and t: "TotalPages (pg page) = N" by (simp_all add: m)
  from getRecordPage_Inr_log [OF this(1)]
  have g: "getRecordPage net c collection options page lg
           = (Inr (pg page), lg @ [page_request c collection options page])" .
  have k: "k = nat (N - (page + 1))" using Suc.hyps(2) by simp
  have u: "[page..N] = page # [page + 1..N]" using lt by (simp add: upto_rec1)
  have ih: "GetAllRecords_loop net c collection (options\<lparr>Page := page\<rparr>) (page + 1) (acc @ Items (pg page))
              (lg @ [page_request c collection options page]) =
           Some (Inr ((acc @ Items (pg page)) @ concat (map (\<lambda>p. Items (pg p)) [page + 1..max N (page + 1)])),
                 (lg @ [page_request c collection options page])
                 @ map (page_request c collection (options\<lparr>Page := page\<rparr>)) [page + 1..max N (page + 1)])"
  proof (rule Suc.hyps(1) [OF k])
    fix p assume p: "page + 1 \<le> p" "p \<le> max N (page + 1)"
    then have "[page..p - 1] = page # [page + 1..p - 1]" by (simp add: upto_rec1)
    with Suc.prems [of p] p m
    show "fst (getRecordPage net c collection (options\<lparr>Page := page\<rparr>) p
                 ((lg @ [page_request c collection options page])
                  @ map (page_request c collection (options\<lparr>Page := page\<rparr>)) [page + 1..p - 1])) = Inr (pg p)
          \<and> TotalPages (pg p) = N"
      by simp
  qed
  show ?case
    by (subst GetAllRecords_loop.simps) (simp add: g t lt m u ih)
qed


lemma GetAllRecords_all:
  assumes "Page (list_options opts) \<le> 1"
  shows "GetAllRecords net c collection opts lg = GetAllRecords_loop net c collection (list_options opts) 1 [] lg"
  using assms unfolding GetAllRecords_def list_options_def Let_def by simp

lemma GetAllRecords_one:
  assumes "1 < Page (list_options opts)"
  shows "GetAllRecords net c collection opts lg =
     (case getRecordPage net c collection (list_options opts) (Page (list_options opts)) lg of
        (Inl err, lg') \<Rightarrow> Some (Inl err, lg')
      | (Inr records, lg') \<Rightarrow> Some (Inr (Items records), lg'))"
  using assms unfolding GetAllRecords_def list_options_def Let_def by simp

lemma page_param: "map_of (getRecordPage_params options page) ''page'' = Some (Itoa page)"
  by (simp add: getRecordPage_params_def Let_def Values_Set_def update_conv')

lemma perPage_param:
  "map_of (getRecordPage_params options page) ''perPage''
     = (if 0 < PerPage options then Some (Itoa (PerPage options)) else None)"
  by (simp add: getRecordPage_params_def Let_def Values_Set_def update_conv')

text \<open>Whatever the server answers, a loop that returns has only made page requests.\<close>

lemma loop_log:
  assumes "GetAllRecords_loop net c collection options page acc lg = Some y"
  shows "\<exists>ps. snd y = lg @ map (page_request c collection options) ps"
proof (rule GetAllRecords_loop.raw_induct
    [where P = "\<lambda>net c collection options page acc lg y.
                  \<exists>ps. snd y = lg @ map (page_request c collection options) ps", OF _ assms])
  fix loop :: "network \<Rightarrow> Client \<Rightarrow> string \<Rightarrow> ListOptions \<Rightarrow> int \<Rightarrow> Record list \<Rightarrow> http_request list
               \<Rightarrow> ((error + Record list) \<times> http_request list) option"
    and net c collection options page acc lg y
  assume IH: "\<And>net c collection options page acc lg y.
                 loop net c collection options page acc lg = Some y \<Longrightarrow>
                 \<exists>ps. snd y = lg @ map (page_request c collection options) ps"
    and eq: "(case getRecordPage net c collection (options\<lparr>Page := page\<rparr>) page lg of
                (Inl err, lg') \<Rightarrow> Some (Inl err, lg')
              | (Inr resp, lg') \<Rightarrow>
                  if TotalPages resp \<le> page then Some (Inr (acc @ Items resp), lg')
                  else loop net c collection (options\<lparr>Page := page\<rparr>) (page + 1) (acc @ Items resp) lg')
             = Some y"
  let ?g = "getRecordPage net c collection options page lg"
  have l: "snd ?g = lg \<or> snd ?g = lg @ [page_request c collection options page]"
    by (simp add: getRecordPage_log)
  show "\<exists>ps. snd y = lg @ map (page_request c collection options) ps"
  proof (cases "fst ?g")
    case (Inl e)
    then have "y = (Inl e, snd ?g)" using eq by (cases ?g) simp
    with l have "snd y = lg @ map (page_request c collection options) []
               \<or> snd y = lg @ map (page_request c collection options) [page]" by simp
    then show ?thesis by blast
  next
    case (Inr resp)
    from getRecordPage_Inr_log [OF this]
    have g: "?g = (Inr resp, lg @ [page_request c collection options page])" .
    show ?thesis
    proof (cases "TotalPages resp \<le> page")
      case True
      then have "snd y = lg @ map (page_request c collection options) [page]"
        using eq g by auto
      then show ?thesis by blast
    next
      case False
      then have "loop net c collection (options\<lparr>Page := page\<rparr>) (page + 1) (acc @ Items resp)
                   (lg @ [page_request c collection options page]) = Some y"
        using eq g by simp
      from IH [OF this] obtain ps
        where "snd y = (lg @ [page_request c collection options page]) @ map (page_request c collection options) ps"
        by auto
      then have "snd y = lg @ map (page_request c collection options) (page # ps)" by simp
      then show ?thesis by blast
    qed
  qed
qed

text \<open>
  The loop need not return: against a server whose every list response reports more
  pages than the page asked for, it runs forever.
\<close>

lemma loop_never_returns:
  assumes more: "\<And>p lg. \<exists>r. fst (getRecordPage net c collection options p lg) = Inr r \<and> p < TotalPages r"
  shows "GetAllRecords_loop net c collection options page acc lg = None"
proof (rule ccontr)
  assume "GetAllRecords_loop net c collection options page acc lg \<noteq> None"
  then obtain y where y: "GetAllRecords_loop net c collection options page acc lg = Some y" by auto
  have "(\<forall>p lg. \<exists>r. fst (getRecordPage net c collection options p lg) = Inr r \<and> p < TotalPages r) \<longrightarrow> False"
  proof (rule GetAllRecords_loop.raw_induct
      [where P = "\<lambda>net c collection options page acc lg y.
                    (\<forall>p lg. \<exists>r. fst (getRecordPage net c collection options p lg) = Inr r \<and> p < TotalPages r)
                    \<longrightarrow> False", OF _ y])
    fix loop :: "network \<Rightarrow> Client \<Rightarrow> string \<Rightarrow> ListOptions \<Rightarrow> int \<Rightarrow> Record list \<Rightarrow> http_request list
                 \<Rightarrow> ((error + Record list) \<times> http_request list) option"
      and net c collection options page acc lg y
    assume IH: "\<And>net c collection options page acc lg y.
                   loop net c collection options page acc lg = Some y \<Longrightarrow>
                   (\<forall>p lg. \<exists>r. fst (getRecordPage net c collection options p lg) = Inr r \<and> p < TotalPages r)
                   \<longrightarrow> False"
      and eq: "(case getRecordPage net c collection (options\<lparr>Page := page\<rparr>) page lg of
                  (Inl err, lg') \<Rightarrow> Some (Inl err, lg')
                | (Inr resp, lg') \<Rightarrow>
                    if TotalPages resp \<le> page then Some (Inr (acc @ Items resp), lg')
                    else loop net c collection (options\<lparr>Page := page\<rparr>) (page + 1) (acc @ Items resp) lg')
               = Some y"
    show "(\<forall>p lg. \<exists>r. fst (getRecordPage net c collection options p lg) = Inr r \<and> p < TotalPages r)
            \<longrightarrow> False"
    proof
      assume a: "\<forall>p lg. \<exists>r. fst (getRecordPage net c collection options p lg) = Inr r \<and> p < TotalPages r"
      then obtain r where r: "fst (getRecordPage net c collection options page lg) = Inr r"
        and t: "page < TotalPages r" by blast
      from getRecordPage_Inr_log [OF r] t eq
      have "loop net c collection (options\<lparr>Page := page\<rparr>) (page + 1) (acc @ Items r)
              (lg @ [page_request c collection options page]) = Some y"
        by simp
      from IH [OF this] a show False by simp
    qed
  qed
  with more show False by blast
qed

text \<open>
  Claim C1, as the code has it. When the caller asks for no page above 1 and every page
  fetch \<open>p = 1, ..., N\<close>, made after the fetches of the pages before it, succeeds
  with a list response that reports \<open>N \<ge> 1\<close> total pages, \<open>GetAllRecords\<close> hands
  exactly \<open>N\<close> requests to the HTTP client, for the pages \<open>1, ..., N\<close> in this order,
  each with the query parameter \<open>page\<close> set to its page number, and returns the items
  of the pages concatenated in page order.
\<close>

theorem GetAllRecords_fetches_pages_1_to_N:
  fixes N :: int
  assumes "Page (list_options opts) \<le> 1"
      and "1 \<le> N"
      and "\<forall>p\<in>{1..N}.
             fst (getRecordPage net c collection (list_options opts) p
                    (lg @ map (page_request c collection (list_options opts)) [1..p - 1])) = Inr (pg p)
             \<and> TotalPages (pg p) = N"
  shows "GetAllRecords net c collection opts lg =
           Some (Inr (concat (map (\<lambda>p. Items (pg p)) [1..N])),
                 lg @ map (page_request c collection (list_options opts)) [1..N])
         \<and> int (length (map (page_request c collection (list_options opts)) [1..N])) = N
         \<and> (\<forall>p\<in>{1..N}. req_url (page_request c collection (list_options opts) p)
                            = BaseURL c @ ''/api/collections/'' @ collection @ ''/records?''
                              @ Values_Encode (getRecordPage_params (list_options opts) p)
                          \<and> map_of (getRecordPage_params (list_options opts) p) ''page'' = Some (Itoa p))"
proof -
  have m: "max N 1 = N" using assms(2) by simp
  have "GetAllRecords_loop net c collection (list_options opts) 1 [] lg =
           Some (Inr ([] @ concat (map (\<lambda>p. Items (pg p)) [1..max N 1])),
                 lg @ map (page_request c collection (list_options opts)) [1..max N 1])"
    by (rule loop_fixed_total) (use assms(3) m in simp)
  then show ?thesis using assms(2)
    by (simp add: GetAllRecords_all [OF assms(1)] m page_param page_request_def json_request_def page_endpoint_def)
qed

theorem GetAllRecords_fetches_pages_1_to_N_witness:
  "Page (list_options []) \<le> 1 \<and> (1::int) \<le> 2
   \<and> fst (getRecordPage (paged_server two_pages) demo_client ''posts'' (list_options []) 1 [])
       = Inr (two_pages_decoded 1)
   \<and> TotalPages (two_pages_decoded 1) = 2
   \<and> fst (getRecordPage (paged_server two_pages) demo_client ''posts'' (list_options []) 2
            [page_request demo_client ''posts'' (list_options []) 1])
       = Inr (two_pages_decoded 2)
   \<and> TotalPages (two_pages_decoded 2) = 2
   \<and> GetAllRecords (paged_server two_pages) demo_client ''posts'' [] [] =
       Some (Inr (concat (map (\<lambda>p. Items (two_pages_decoded p)) [1..2])),
             [] @ map (page_request demo_client ''posts'' (list_options [])) [1..2])
   \<and> concat (map (\<lambda>p. Items (two_pages_decoded p)) [1..2])
       = [Some [(''id'', JString ''a'')], Some [(''id'', JString ''b'')], Some [(''id'', JString ''c'')]]
   \<and> map req_url (map (page_request demo_client ''posts'' (list_options [])) [1..2])
       = [''http://localhost:8090/api/collections/posts/records?page=1&perPage=30'',
          ''http://localhost:8090/api/collections/posts/records?page=2&perPage=30'']"
proof -
  have h1: "Page (list_options []) \<le> 1" by code_simp
  have h2: "(1::int) \<le> 2" by simp
  have i1: "fst (getRecordPage (paged_server two_pages) demo_client ''posts'' (list_options []) 1 [])
       = Inr (two_pages_decoded 1)" by code_simp
  have i2: "TotalPages (two_pages_decoded 1) = 2" by code_simp
  have i3: "fst (getRecordPage (paged_server two_pages) demo_client ''posts'' (list_options []) 2
            [page_request demo_client ''posts'' (list_options []) 1])
       = Inr (two_pages_decoded 2)" by code_simp
  have i4: "TotalPages (two_pages_decoded 2) = 2" by code_simp
  have h3: "\<forall>p\<in>{1..2}.
             fst (getRecordPage (paged_server two_pages) demo_client ''posts'' (list_options []) p
                    ([] @ map (page_request demo_client ''posts'' (list_options [])) [1..p - 1]))
               = Inr (two_pages_decoded p)
             \<and> TotalPages (two_pages_decoded p) = 2"
    by code_simp
  have t: "GetAllRecords (paged_server two_pages) demo_client ''posts'' [] [] =
       Some (Inr (concat (map (\<lambda>p. Items (two_pages_decoded p)) [1..2])),
             [] @ map (page_request demo_client ''posts'' (list_options [])) [1..2])"
    using GetAllRecords_fetches_pages_1_to_N [OF h1 h2 h3] by (rule conjunct1)
  have c1: "concat (map (\<lambda>p. Items (two_pages_decoded p)) [1..2])
       = [Some [(''id'', JString ''a'')], Some [(''id'', JString ''b'')], Some [(''id'', JString ''c'')]]"
    by code_simp
  have c2: "map req_url (map (page_request demo_client ''posts'' (list_options [])) [1..2])
       = [''http://localhost:8090/api/collections/posts/records?page=1&perPage=30'',
          ''http://localhost:8090/api/collections/posts/records?page=2&perPage=30'']"
    by code_simp
  show ?thesis by (intro conjI) (rule h1 h2 i1 i2 i3 i4 t c1 c2)+
qed

text \<open>
  Claim C1 as the spec words it fails at \<open>N = 0\<close>: the server of an empty collection
  reports zero total pages, and \<open>GetAllRecords\<close> has made one request, not zero.
\<close>

theorem zero_total_pages_counterexample:
  "Page (list_options []) \<le> 1
   \<and> fst (getRecordPage (paged_server [page_body 1 0 []]) demo_client ''posts'' (list_options []) 1 [])
       = Inr (empty_page_decoded 1)
   \<and> TotalPages (empty_page_decoded 1) = 0
   \<and> GetAllRecords (paged_server [page_body 1 0 []]) demo_client ''posts'' [] []
       = Some (Inr [], [page_request demo_client ''posts'' (list_options []) 1])
   \<and> length [page_request demo_client ''posts'' (list_options []) 1] \<noteq> 0"
  by code_simp

text \<open>
  Claim C9. When the caller asks for no page above 1 and every page fetch that
  \<open>GetAllRecords\<close> makes succeeds with a list response reporting the same total-page
  count \<open>N\<close>, the loop returns, after exactly \<open>max N 1\<close> requests, for the pages
  \<open>1, ..., max N 1\<close>, with the items of these pages. In particular for \<open>N \<le> 0\<close>
  the only request is the one for page 1 and the result is the items of that page, the
  empty sequence for an empty collection: the loop leaves as soon as the page number has
  reached the reported total.
\<close>

theorem GetAllRecords_terminates_fixed_total:
  fixes N :: int
  assumes "Page (list_options opts) \<le> 1"
      and "\<forall>p\<in>{1..max N 1}.
             fst (getRecordPage net c collection (list_options opts) p
                    (lg @ map (page_request c collection (list_options opts)) [1..p - 1])) = Inr (pg p)
             \<and> TotalPages (pg p) = N"
  shows "\<exists>records sent.
           GetAllRecords net c collection opts lg = Some (Inr records, lg @ sent)
           \<and> sent = map (page_request c collection (list_options opts)) [1..max N 1]
           \<and> int (length sent) = max N 1
           \<and> records = concat (map (\<lambda>p. Items (pg p)) [1..max N 1])
           \<and> (N \<le> 0 \<longrightarrow> sent = [page_request c collection (list_options opts) 1]
                          \<and> records = Items (pg 1))"
proof -
  have "GetAllRecords_loop net c collection (list_options opts) 1 [] lg =
           Some (Inr ([] @ concat (map (\<lambda>p. Items (pg p)) [1..max N 1])),
                 lg @ map (page_request c collection (list_options opts)) [1..max N 1])"
    by (rule loop_fixed_total) (use assms(2) in simp)
  then show ?thesis
    by (auto simp: GetAllRecords_all [OF assms(1)] max_def)
qed

theorem GetAllRecords_terminates_fixed_total_witness:
  "Page (list_options []) \<le> 1
   \<and> fst (getRecordPage (paged_server [page_body 1 0 []]) demo_client ''posts'' (list_options []) 1 [])
       = Inr (empty_page_decoded 1)
   \<and> TotalPages (empty_page_decoded 1) = 0
   \<and> Items (empty_page_decoded 1) = []
   \<and> GetAllRecords (paged_server [page_body 1 0 []]) demo_client ''posts'' [] []
       = Some (Inr (Items (empty_page_decoded 1)),
               [] @ [page_request demo_client ''posts'' (list_options []) 1])"
proof -
  have h1: "Page (list_options []) \<le> 1" by code_simp
  have i1: "fst (getRecordPage (paged_server [page_body 1 0 []]) demo_client ''posts'' (list_options []) 1 [])
       = Inr (empty_page_decoded 1)" by code_simp
  have i2: "TotalPages (empty_page_decoded 1) = 0" by code_simp
  have i3: "Items (empty_page_decoded 1) = []" by code_simp
  have h2: "\<forall>p\<in>{1..max 0 1}.
             fst (getRecordPage (paged_server [page_body 1 0 []]) demo_client ''posts'' (list_options []) p
                    ([] @ map (page_request demo_client ''posts'' (list_options [])) [1..p - 1]))
               = Inr (empty_page_decoded p)
             \<and> TotalPages (empty_page_decoded p) = 0"
    using i1 i2 by (simp add: empty_page_decoded_def)
  from GetAllRecords_terminates_fixed_total [OF h1 h2]
  have t: "GetAllRecords (paged_server [page_body 1 0 []]) demo_client ''posts'' [] []
       = Some (Inr (Items (empty_page_decoded 1)),
               [] @ [page_request demo_client ''posts'' (list_options []) 1])"
    by auto
  show ?thesis by (intro conjI) (rule h1 i1 i2 i3 t)+
qed

text \<open>
  Claim C2. When the options ask for a page above 1, \<open>GetAllRecords\<close> makes one
  call of \<open>getRecordPage\<close>, for that page: the only request handed to the HTTP client
  is the request for that page (none at all when the request cannot be built), and
  when the fetch succeeds the result is exactly the items of its response, whatever
  total-page count the response reports.
\<close>

theorem GetAllRecords_explicit_page:
  assumes "1 < Page (list_options opts)"
  shows "(\<exists>res. GetAllRecords net c collection opts lg =
            Some (res, if NewRequest_ok net ''GET''
                            (BaseURL c @ page_endpoint collection (list_options opts) (Page (list_options opts)))
                       then lg @ [page_request c collection (list_options opts) (Page (list_options opts))]
                       else lg))
       \<and> (\<forall>resp. fst (getRecordPage net c collection (list_options opts) (Page (list_options opts)) lg) = Inr resp
             \<longrightarrow> GetAllRecords net c collection opts lg =
                   Some (Inr (Items resp),
                         lg @ [page_request c collection (list_options opts) (Page (list_options opts))]))"
proof (intro conjI allI impI)
  let ?g = "getRecordPage net c collection (list_options opts) (Page (list_options opts)) lg"
  have "snd ?g = (if NewRequest_ok net ''GET''
                            (BaseURL c @ page_endpoint collection (list_options opts) (Page (list_options opts)))
                       then lg @ [page_request c collection (list_options opts) (Page (list_options opts))]
                       else lg)"
    by (rule getRecordPage_log)
  then show "\<exists>res. GetAllRecords net c collection opts lg =
            Some (res, if NewRequest_ok net ''GET''
                            (BaseURL c @ page_endpoint collection (list_options opts) (Page (list_options opts)))
                       then lg @ [page_request c collection (list_options opts) (Page (list_options opts))]
                       else lg)"
    unfolding GetAllRecords_one [OF assms]
    by (cases ?g; cases "fst ?g") auto
next
  fix resp
  assume "fst (getRecordPage net c collection (list_options opts) (Page (list_options opts)) lg) = Inr resp"
  from getRecordPage_Inr_log [OF this]
  show "GetAllRecords net c collection opts lg =
          Some (Inr (Items resp), lg @ [page_request c collection (list_options opts) (Page (list_options opts))])"
    unfolding GetAllRecords_one [OF assms] by simp
qed

theorem GetAllRecords_explicit_page_witness:
  "1 < Page (list_options [WithPage 2])
   \<and> fst (getRecordPage (static_server page_2_of_5) demo_client ''posts'' (list_options [WithPage 2])
            (Page (list_options [WithPage 2])) [])
       = Inr page_2_of_5_decoded
   \<and> TotalPages page_2_of_5_decoded = 5
   \<and> GetAllRecords (static_server page_2_of_5) demo_client ''posts'' [WithPage 2] []
       = Some (Inr (Items page_2_of_5_decoded),
               [] @ [page_request demo_client ''posts'' (list_options [WithPage 2])
                       (Page (list_options [WithPage 2]))])
   \<and> Items page_2_of_5_decoded = [Some [(''id'', JString ''b'')]]
   \<and> req_url (page_request demo_client ''posts'' (list_options [WithPage 2]) (Page (list_options [WithPage 2])))
       = ''http://localhost:8090/api/collections/posts/records?page=2&perPage=30''"
proof -
  have h1: "1 < Page (list_options [WithPage 2])" by code_simp
  have i1: "fst (getRecordPage (static_server page_2_of_5) demo_client ''posts'' (list_options [WithPage 2])
            (Page (list_options [WithPage 2])) [])
       = Inr page_2_of_5_decoded" by code_simp
  have i2: "TotalPages page_2_of_5_decoded = 5" by code_simp
  have i3: "Items page_2_of_5_decoded = [Some [(''id'', JString ''b'')]]" by code_simp
  have i4: "req_url (page_request demo_client ''posts'' (list_options [WithPage 2]) (Page (list_options [WithPage 2])))
       = ''http://localhost:8090/api/collections/posts/records?page=2&perPage=30''" by code_simp
  from GetAllRecords_explicit_page [OF h1] i1
  have t: "GetAllRecords (static_server page_2_of_5) demo_client ''posts'' [WithPage 2] []
       = Some (Inr (Items page_2_of_5_decoded),
               [] @ [page_request demo_client ''posts'' (list_options [WithPage 2])
                       (Page (list_options [WithPage 2]))])"
    by blast
  show ?thesis by (intro conjI) (rule h1 i1 i2 i3 i4 t)+
qed

text \<open>
  Claim C10. Every request that \<open>GetAllRecords\<close> has handed to the HTTP client when
  it returns is a page request: its URL encodes the query parameters that
  \<open>getRecordPage\<close> sets for some page \<open>p\<close>. Among these parameters \<open>page\<close> is always
  present, with \<open>p\<close> in decimal as its value, and \<open>perPage\<close> is present if and only if
  the \<open>PerPage\<close> option is strictly positive. So when the caller sets \<open>perPage\<close> to
  zero or below, no request carries a \<open>perPage\<close> parameter.
\<close>

theorem perPage_omitted_unless_positive:
  assumes "GetAllRecords net c collection opts lg = Some (res, lg')"
  shows "\<exists>ps. lg' = lg @ map (page_request c collection (list_options opts)) ps
          \<and> (\<forall>p\<in>set ps.
                req_url (page_request c collection (list_options opts) p)
                  = BaseURL c @ ''/api/collections/'' @ collection @ ''/records?''
                    @ Values_Encode (getRecordPage_params (list_options opts) p)
                \<and> map_of (getRecordPage_params (list_options opts) p) ''page'' = Some (Itoa p)
                \<and> (''perPage'' \<in> fst ` set (getRecordPage_params (list_options opts) p)
                     \<longleftrightarrow> 0 < PerPage (list_options opts))
                \<and> (PerPage (list_options opts) \<le> 0
                     \<longrightarrow> ''perPage'' \<notin> fst ` set (getRecordPage_params (list_options opts) p)))"
proof -
  have k: "''perPage'' \<in> fst ` set (getRecordPage_params (list_options opts) p)
             \<longleftrightarrow> 0 < PerPage (list_options opts)" for p
    using perPage_param [of "list_options opts" p]
    by (metis domIff dom_map_of_conv_image_fst option.distinct(1))
  have u: "req_url (page_request c collection (list_options opts) p)
             = BaseURL c @ ''/api/collections/'' @ collection @ ''/records?''
               @ Values_Encode (getRecordPage_params (list_options opts) p)" for p
    by (simp add: page_request_def json_request_def page_endpoint_def)
  have "\<exists>ps. lg' = lg @ map (page_request c collection (list_options opts)) ps"
  proof (cases "1 < Page (list_options opts)")
    case True
    let ?g = "getRecordPage net c collection (list_options opts) (Page (list_options opts)) lg"
    have "lg' = snd ?g" using assms unfolding GetAllRecords_one [OF True]
      by (cases ?g; cases "fst ?g") auto
    then have "lg' = lg @ map (page_request c collection (list_options opts)) []
             \<or> lg' = lg @ map (page_request c collection (list_options opts)) [Page (list_options opts)]"
      by (simp add: getRecordPage_log)
    then show ?thesis by blast
  next
    case False
    then have "GetAllRecords_loop net c collection (list_options opts) 1 [] lg = Some (res, lg')"
      using assms GetAllRecords_all [of opts net c collection lg] by simp
    from loop_log [OF this] show ?thesis by simp
  qed
  then obtain ps where "lg' = lg @ map (page_request c collection (list_options opts)) ps" by blast
  with k u page_param show ?thesis by (intro exI [of _ ps]) simp
qed

theorem perPage_omitted_unless_positive_witness:
  "PerPage (list_options [WithPerPage 0]) \<le> 0
   \<and> GetAllRecords (paged_server two_pages) demo_client ''posts'' [WithPerPage 0] []
       = Some (Inr [Some [(''id'', JString ''a'')], Some [(''id'', JString ''b'')], Some [(''id'', JString ''c'')]],
               [] @ map (page_request demo_client ''posts'' (list_options [WithPerPage 0])) [1, 2])
   \<and> map req_url (map (page_request demo_client ''posts'' (list_options [WithPerPage 0])) [1, 2])
       = [''http://localhost:8090/api/collections/posts/records?page=1'',
          ''http://localhost:8090/api/collections/posts/records?page=2'']
   \<and> map req_url (snd (the (GetAllRecords (paged_server two_pages) demo_client ''posts'' [WithPerPage 5] [])))
       = [''http://localhost:8090/api/collections/posts/records?page=1&perPage=5'',
          ''http://localhost:8090/api/collections/posts/records?page=2&perPage=5'']
   \<and> (\<exists>ps. [] @ map (page_request demo_client ''posts'' (list_options [WithPerPage 0])) [1, 2]
               = [] @ map (page_request demo_client ''posts'' (list_options [WithPerPage 0])) ps
             \<and> (\<forall>p\<in>set ps.
                   ''perPage'' \<notin> fst ` set (getRecordPage_params (list_options [WithPerPage 0]) p)
                   \<and> map_of (getRecordPage_params (list_options [WithPerPage 0]) p) ''page'' = Some (Itoa p)))"
proof -
  have h1: "PerPage (list_options [WithPerPage 0]) \<le> 0" by code_simp
  have h2: "GetAllRecords (paged_server two_pages) demo_client ''posts'' [WithPerPage 0] []
       = Some (Inr [Some [(''id'', JString ''a'')], Some [(''id'', JString ''b'')], Some [(''id'', JString ''c'')]],
               [] @ map (page_request demo_client ''posts'' (list_options [WithPerPage 0])) [1, 2])"
    by code_simp
  have i1: "map req_url (map (page_request demo_client ''posts'' (list_options [WithPerPage 0])) [1, 2])
       = [''http://localhost:8090/api/collections/posts/records?page=1'',
          ''http://localhost:8090/api/collections/posts/records?page=2'']"
    by code_simp
  have i2: "map req_url (snd (the (GetAllRecords (paged_server two_pages) demo_client ''posts'' [WithPerPage 5] [])))
       = [''http://localhost:8090/api/collections/posts/records?page=1&perPage=5'',
          ''http://localhost:8090/api/collections/posts/records?page=2&perPage=5'']"
    by code_simp
  have t: "\<exists>ps. [] @ map (page_request demo_client ''posts'' (list_options [WithPerPage 0])) [1, 2]
               = [] @ map (page_request demo_client ''posts'' (list_options [WithPerPage 0])) ps
             \<and> (\<forall>p\<in>set ps.
                   ''perPage'' \<notin> fst ` set (getRecordPage_params (list_options [WithPerPage 0]) p)
                   \<and> map_of (getRecordPage_params (list_options [WithPerPage 0]) p) ''page'' = Some (Itoa p))"
    using perPage_omitted_unless_positive [OF h2] h1 by blast
  show ?thesis by (intro conjI) (rule h1 h2 i1 i2 t)+
qed

section \<open>Multipart encoding of uploads\<close>

lemma writeDeletes_eq:
  "writeDeletes k filenames w = w @ map (\<lambda>filename. FormField k (Text filename)) filenames"
  by (induction filenames arbitrary: w) simp_all

lemma writeFiles_ok:
  assumes "list_all (\<lambda>file. Reader file \<noteq> ReadError) files"
  shows "writeFiles k files w
           = Inr (w @ map (\<lambda>file. FormFile k (Filename file) (file_content (Reader file))) files)"
  using assms
proof (induction files arbitrary: w)
  case Nil
  show ?case by simp
next
  case (Cons fd files)
  then obtain content where r: "Reader fd = Bytes content" by (cases "Reader fd") simp_all
  with Cons show ?case by (simp add: file_content_def)
qed

lemma writeUploads_ok:
  assumes "list_all readable uploads"
  shows "writeUploads uploads w = Inr (w @ concat (map upload_parts uploads))"
  using assms
proof (induction uploads arbitrary: w)
  case Nil
  show ?case by simp
next
  case (Cons upload uploads)
  from Cons.prems have r: "list_all readable uploads" and "readable upload" by simp_all
  then have f: "list_all (\<lambda>file. Reader file \<noteq> ReadError) (Files upload)"
    by (simp add: readable_def)
  show ?case
    by (simp add: Let_def writeDeletes_eq writeFiles_ok [OF f] Cons.IH [OF r] upload_parts_def)
qed

text \<open>
  Claim C4. For a file-upload bundle whose file readers all succeed and whose form data
  has been written as \<open>w1\<close>, the multipart encoder appends the parts of the upload
  directives in the order the caller gave them. The parts of one directive are first
  one form field \<^verbatim>\<open><field>-\<close> per filename of its delete-list, with the filename as
  the value, then one file part per file, under \<^verbatim>\<open><field>+\<close> when it appends and
  under the bare field name otherwise. The request that \<open>doMultipartRequest\<close> hands to
  the HTTP client, if any, has exactly these parts as its payload. A directive without
  files yields its delete fields and no file part.
\<close>

theorem multipart_upload_parts:
  assumes "list_all readable (Uploads fileUploads)"
      and "(case FormData fileUploads of None \<Rightarrow> Inr [] | Some d \<Rightarrow> writeData d []) = Inr w1"
  shows "writeUploads (Uploads fileUploads) w1 = Inr (w1 @ concat (map upload_parts (Uploads fileUploads)))
       \<and> (snd (doMultipartRequest net c m ep fileUploads dec out lg) = lg
           \<or> (\<exists>url hdrs. snd (doMultipartRequest net c m ep fileUploads dec out lg)
                 = lg @ [\<lparr>req_method = m, req_url = url, req_headers = hdrs,
                           req_payload = MultipartPayload
                                           (w1 @ concat (map upload_parts (Uploads fileUploads)))\<rparr>]))
       \<and> (\<forall>upload. Files upload = [] \<longrightarrow>
             upload_parts upload
               = map (\<lambda>filename. FormField (Field upload @ ''-'') (Text filename)) (Delete upload))"
proof (intro conjI)
  show w: "writeUploads (Uploads fileUploads) w1 = Inr (w1 @ concat (map upload_parts (Uploads fileUploads)))"
    by (rule writeUploads_ok [OF assms(1)])
  have p: "multipart_parts fileUploads = Inr (w1 @ concat (map upload_parts (Uploads fileUploads)))"
    by (simp add: multipart_parts_def assms(2) w)
  obtain url hdrs where e: "doMultipartRequest net c m ep fileUploads dec out lg =
        multipart_outcome net m fileUploads dec out lg url hdrs"
    using doMultipartRequest_cases [of net c m ep fileUploads dec out lg] by blast
  show "snd (doMultipartRequest net c m ep fileUploads dec out lg) = lg
           \<or> (\<exists>url hdrs. snd (doMultipartRequest net c m ep fileUploads dec out lg)
                 = lg @ [\<lparr>req_method = m, req_url = url, req_headers = hdrs,
                           req_payload = MultipartPayload
                                           (w1 @ concat (map upload_parts (Uploads fileUploads)))\<rparr>])"
    unfolding e multipart_outcome_def p by (simp split: option.split)
  show "\<forall>upload. Files upload = [] \<longrightarrow>
             upload_parts upload
               = map (\<lambda>filename. FormField (Field upload @ ''-'') (Text filename)) (Delete upload)"
    by (simp add: upload_parts_def)
qed

theorem multipart_upload_parts_witness:
  "list_all readable (Uploads (upload_options demo_uploads))
   \<and> (case FormData (upload_options demo_uploads) of None \<Rightarrow> Inr [] | Some d \<Rightarrow> writeData d []) = Inr []
   \<and> writeUploads (Uploads (upload_options demo_uploads)) []
       = Inr ([] @ concat (map upload_parts (Uploads (upload_options demo_uploads))))
   \<and> concat (map upload_parts (Uploads (upload_options demo_uploads)))
       = [FormField ''avatar-'' (Text ''a.png''), FormField ''avatar-'' (Text ''b.png''),
          FormFile ''files+'' ''c.pdf'' ''%PDF'']
   \<and> upload_parts \<lparr>Field = ''avatar'', Files = [], Append = False, Delete = [''a.png'', ''b.png'']\<rparr>
       = [FormField ''avatar-'' (Text ''a.png''), FormField ''avatar-'' (Text ''b.png'')]
   \<and> map req_payload (snd (UpdateRecordWithFiles (static_server record_200) demo_client ''users'' ''u1''
                               demo_uploads []))
       = [MultipartPayload [FormField ''avatar-'' (Text ''a.png''), FormField ''avatar-'' (Text ''b.png''),
                            FormFile ''files+'' ''c.pdf'' ''%PDF'']]"
proof -
  have h1: "list_all readable (Uploads (upload_options demo_uploads))" by code_simp
  have h2: "(case FormData (upload_options demo_uploads) of None \<Rightarrow> Inr [] | Some d \<Rightarrow> writeData d []) = Inr []"
    by code_simp
  have t: "writeUploads (Uploads (upload_options demo_uploads)) []
       = Inr ([] @ concat (map upload_parts (Uploads (upload_options demo_uploads))))"
    using multipart_upload_parts [OF h1 h2] by (rule conjunct1)
  have i1: "concat (map upload_parts (Uploads (upload_options demo_uploads)))
       = [FormField ''avatar-'' (Text ''a.png''), FormField ''avatar-'' (Text ''b.png''),
          FormFile ''files+'' ''c.pdf'' ''%PDF'']" by code_simp
  have i2: "upload_parts \<lparr>Field = ''avatar'', Files = [], Append = False, Delete = [''a.png'', ''b.png'']\<rparr>
       = [FormField ''avatar-'' (Text ''a.png''), FormField ''avatar-'' (Text ''b.png'')]" by code_simp
  have i3: "map req_payload (snd (UpdateRecordWithFiles (static_server record_200) demo_client ''users'' ''u1''
                               demo_uploads []))
       = [MultipartPayload [FormField ''avatar-'' (Text ''a.png''), FormField ''avatar-'' (Text ''b.png''),
                            FormFile ''files+'' ''c.pdf'' ''%PDF'']]" by code_simp
  show ?thesis by (intro conjI) (rule h1 h2 t i1 i2 i3)+
qed

section \<open>Authentication\<close>

text \<open>
  Claim C5. When \<open>AuthenticateWithPassword\<close> succeeds, a request was made, its
  response had a 2xx status and a body that decodes as an auth response; the token the
  client stores afterwards is the token of that decoded response and the returned
  record is its record. When it fails, the client, and so its token, is unchanged.
  \<open>AuthenticateAsSuperuser\<close> is the same call on the collection \<^verbatim>\<open>_superusers\<close>.
\<close>

theorem AuthenticateWithPassword_stores_token:
  "(case AuthenticateWithPassword net c collection identity password lg of
      (Inl err, c', lg') \<Rightarrow> c' = c \<and> GetToken c' = GetToken c
    | (Inr record, c', lg') \<Rightarrow>
        (\<exists>req resp a. lg' = lg @ [req] \<and> Do net lg req = Some resp
            \<and> 200 \<le> StatusCode resp \<and> StatusCode resp < 300
            \<and> decode_body decode_authResp (ResponseBody resp) zero_authResp = Some a
            \<and> GetToken c' = authResp_Token a \<and> record = authResp_Record a))
   \<and> AuthenticateAsSuperuser net c email password' lg
       = AuthenticateWithPassword net c ''_superusers'' email password' lg"
proof -
  let ?ep = "''/api/collections/'' @ collection @ ''/auth-with-password''"
  let ?b = "ValueBody (Some (JObject [(''identity'', JString identity), (''password'', JString password)]))"
  let ?d = "doRequest net c ''POST'' ?ep ?b (Some decode_authResp) zero_authResp lg"
  have j: "is_json_body ?b" by (simp add: is_json_body_def)
  obtain r lg' where d: "?d = (r, lg')" by (cases ?d)
  have a: "AuthenticateWithPassword net c collection identity password lg =
             (case r of Inl err \<Rightarrow> (Inl err, c, lg')
                      | Inr resp \<Rightarrow> (Inr (authResp_Record resp), SetToken c (authResp_Token resp), lg'))"
    unfolding AuthenticateWithPassword_def Let_def d by (simp split: sum.split)
  have "case AuthenticateWithPassword net c collection identity password lg of
      (Inl err, c', lg') \<Rightarrow> c' = c \<and> GetToken c' = GetToken c
    | (Inr record, c', lg') \<Rightarrow>
        (\<exists>req resp a. lg' = lg @ [req] \<and> Do net lg req = Some resp
            \<and> 200 \<le> StatusCode resp \<and> StatusCode resp < 300
            \<and> decode_body decode_authResp (ResponseBody resp) zero_authResp = Some a
            \<and> GetToken c' = authResp_Token a \<and> record = authResp_Record a)"
  proof (cases r)
    case (Inl err)
    then show ?thesis unfolding a by simp
  next
    case (Inr v)
    from doRequest_json_Inr [OF j d [unfolded Inr]]
    obtain resp where l: "lg' = lg @ [json_request c ''POST'' ?ep (payload_of ?b)]"
      and s: "Do net lg (json_request c ''POST'' ?ep (payload_of ?b)) = Some resp"
      and v: "response_result resp (Some decode_authResp) zero_authResp = Inr v"
      by blast
    from response_result_Inr [OF v] l s show ?thesis
      unfolding a Inr by (simp add: SetToken_def GetToken_def)
  qed
  then show ?thesis by (simp add: AuthenticateAsSuperuser_def)
qed

theorem AuthenticateWithPassword_stores_token_witness:
  "AuthenticateWithPassword (static_server auth_200) (demo_client\<lparr>token := ''old''\<rparr>) ''users'' ''a@b.c'' ''pw'' []
     = (Inr (Some [(''id'', JString ''u1'')]), demo_client\<lparr>token := ''tok123''\<rparr>,
        [json_request (demo_client\<lparr>token := ''old''\<rparr>) ''POST'' ''/api/collections/users/auth-with-password''
           (JsonPayload (JObject [(''identity'', JString ''a@b.c''), (''password'', JString ''pw'')]))])
   \<and> decode_body decode_authResp (ResponseBody auth_200) zero_authResp
       = Some \<lparr>authResp_Token = ''tok123'', authResp_Record = Some [(''id'', JString ''u1'')]\<rparr>
   \<and> (\<exists>a. decode_body decode_authResp (ResponseBody auth_200) zero_authResp = Some a
          \<and> GetToken (demo_client\<lparr>token := ''tok123''\<rparr>) = authResp_Token a
          \<and> Some [(''id'', JString ''u1'')] = authResp_Record a)
   \<and> AuthenticateWithPassword (static_server auth_400) (demo_client\<lparr>token := ''old''\<rparr>) ''users'' ''a@b.c'' ''pw'' []
     = (Inl (APIErr \<lparr>Status = 400, Message = ''Failed to authenticate.'', Data = Some []\<rparr>),
        demo_client\<lparr>token := ''old''\<rparr>,
        [json_request (demo_client\<lparr>token := ''old''\<rparr>) ''POST'' ''/api/collections/users/auth-with-password''
           (JsonPayload (JObject [(''identity'', JString ''a@b.c''), (''password'', JString ''pw'')]))])
   \<and> GetToken (demo_client\<lparr>token := ''old''\<rparr>) = ''old''"
proof -
  have h1: "AuthenticateWithPassword (static_server auth_200) (demo_client\<lparr>token := ''old''\<rparr>) ''users'' ''a@b.c'' ''pw'' []
     = (Inr (Some [(''id'', JString ''u1'')]), demo_client\<lparr>token := ''tok123''\<rparr>,
        [json_request (demo_client\<lparr>token := ''old''\<rparr>) ''POST'' ''/api/collections/users/auth-with-password''
           (JsonPayload (JObject [(''identity'', JString ''a@b.c''), (''password'', JString ''pw'')]))])"
    by code_simp
  have h2: "decode_body decode_authResp (ResponseBody auth_200) zero_authResp
       = Some \<lparr>authResp_Token = ''tok123'', authResp_Record = Some [(''id'', JString ''u1'')]\<rparr>"
    by code_simp
  have h3: "\<exists>a. decode_body decode_authResp (ResponseBody auth_200) zero_authResp = Some a
          \<and> GetToken (demo_client\<lparr>token := ''tok123''\<rparr>) = authResp_Token a
          \<and> Some [(''id'', JString ''u1'')] = authResp_Record a"
    using AuthenticateWithPassword_stores_token
            [where net = "static_server auth_200" and c = "demo_client\<lparr>token := ''old''\<rparr>"
               and collection = "''users''" and identity = "''a@b.c''" and password = "''pw''" and lg = "[]"]
    unfolding h1 by (auto simp: static_server_def)
  have h4: "AuthenticateWithPassword (static_server auth_400) (demo_client\<lparr>token := ''old''\<rparr>) ''users'' ''a@b.c'' ''pw'' []
     = (Inl (APIErr \<lparr>Status = 400, Message = ''Failed to authenticate.'', Data = Some []\<rparr>),
        demo_client\<lparr>token := ''old''\<rparr>,
        [json_request (demo_client\<lparr>token := ''old''\<rparr>) ''POST'' ''/api/collections/users/auth-with-password''
           (JsonPayload (JObject [(''identity'', JString ''a@b.c''), (''password'', JString ''pw'')]))])"
    by code_simp
  have h5: "GetToken (demo_client\<lparr>token := ''old''\<rparr>) = ''old''" by code_simp
  show ?thesis by (intro conjI) (rule h1 h2 h3 h4 h5)+
qed

text \<open>
  Claim C6. \<open>Impersonate\<close> hands at most one request to the HTTP client (none when the
  request cannot be built). Its payload is the JSON object \<^verbatim>\<open>{"duration": d}\<close> when
  the duration \<open>d\<close> is positive, and empty otherwise: the payload has a
  \<^verbatim>\<open>duration\<close> key if and only if the duration is positive.
\<close>

theorem Impersonate_duration_in_body:
  "\<exists>endpoint pl.
      snd (Impersonate net c collection recordID duration opts lg)
        = (if NewRequest_ok net ''POST'' (BaseURL c @ endpoint)
           then lg @ [json_request c ''POST'' endpoint pl] else lg)
      \<and> pl = (if 0 < duration then JsonPayload (JObject [(''duration'', JInt duration)]) else EmptyPayload)
      \<and> (payload_has_key pl ''duration'' \<longleftrightarrow> 0 < duration)"
proof -
  let ?b = "if 0 < duration then ValueBody (Some (JObject [(''duration'', JInt duration)])) else NilBody"
  have j: "is_json_body ?b" by (simp add: is_json_body_def)
  have p: "payload_of ?b = (if 0 < duration then JsonPayload (JObject [(''duration'', JInt duration)]) else EmptyPayload)"
    by (simp add: payload_of_def)
  have b: "(if 0 < length (if 0 < duration then [(''duration'', JInt duration)] else [])
            then ValueBody (Some (JObject (if 0 < duration then [(''duration'', JInt duration)] else [])))
            else NilBody) = ?b"
    by simp
  have "\<exists>endpoint. snd (Impersonate net c collection recordID duration opts lg)
          = snd (doRequest net c ''POST'' endpoint ?b (Some decode_impersonateResp) zero_impersonateResp lg)"
    unfolding Impersonate_def Let_def b snd_result_case
    by (rule exI, rule refl)
  then obtain endpoint where "snd (Impersonate net c collection recordID duration opts lg)
          = (if NewRequest_ok net ''POST'' (BaseURL c @ endpoint)
             then lg @ [json_request c ''POST'' endpoint (payload_of ?b)] else lg)"
    unfolding doRequest_json_log [OF j] by blast
  then show ?thesis unfolding p by (auto simp: payload_has_key_def)
qed

theorem Impersonate_duration_in_body_witness:
  "map req_payload (snd (Impersonate (static_server auth_200) demo_client ''users'' ''u1'' 3600 [] []))
     = [JsonPayload (JObject [(''duration'', JInt 3600)])]
   \<and> map req_payload (snd (Impersonate (static_server auth_200) demo_client ''users'' ''u1'' 0 [] []))
     = [EmptyPayload]
   \<and> map req_payload (snd (Impersonate (static_server auth_200) demo_client ''users'' ''u1'' (- 60) [] []))
     = [EmptyPayload]"
proof -
  have "map req_payload (snd (Impersonate (static_server auth_200) demo_client ''users'' ''u1'' d [] []))
     = [if 0 < d then JsonPayload (JObject [(''duration'', JInt d)]) else EmptyPayload]" for d
    using Impersonate_duration_in_body
            [where net = "static_server auth_200" and c = demo_client and collection = "''users''"
               and recordID = "''u1''" and duration = d and opts = "[]" and lg = "[]"]
    by (auto simp: static_server_def json_request_def)
  from this [of 3600] this [of 0] this [of "- 60"] show ?thesis by simp
qed

section \<open>Token store\<close>

text \<open>
  Claim C7. For every token \<open>T\<close> and every client, whatever token it held before,
  reading the token after \<open>SetToken T\<close> returns exactly \<open>T\<close>.
\<close>

theorem SetToken_GetToken: "GetToken (SetToken c T) = T"
  by (simp add: SetToken_def GetToken_def)

section \<open>Error classification\<close>

text \<open>
  Claim C8. Each classification helper of an API error is true exactly at its own
  status: \<open>IsNotFound\<close> at 404, \<open>IsUnauthorized\<close> at 401, \<open>IsForbidden\<close> at 403 and
  \<open>IsBadRequest\<close> at 400. So on a status outside these four all helpers are false (a
  500 is not a bad request), and no two helpers hold of the same error.
\<close>

theorem APIError_classification:
  "(IsNotFound e \<longleftrightarrow> Status e = 404) \<and> (IsUnauthorized e \<longleftrightarrow> Status e = 401)
   \<and> (IsForbidden e \<longleftrightarrow> Status e = 403) \<and> (IsBadRequest e \<longleftrightarrow> Status e = 400)
   \<and> \<not> IsBadRequest (e\<lparr>Status := 500\<rparr>) \<and> \<not> IsBadRequest (e\<lparr>Status := 401\<rparr>)
   \<and> \<not> IsUnauthorized (e\<lparr>Status := 400\<rparr>) \<and> \<not> IsForbidden (e\<lparr>Status := 404\<rparr>)
   \<and> \<not> IsNotFound (e\<lparr>Status := 403\<rparr>)
   \<and> length (filter (\<lambda>h. h e) [IsNotFound, IsUnauthorized, IsForbidden, IsBadRequest]) \<le> 1"
  by (simp add: IsNotFound_def IsUnauthorized_def IsForbidden_def IsBadRequest_def)

end
